theory Spec2Isabelle
  imports Complex_Main "HOL-Library.Multiset" "HOL-Library.Product_Lexorder"
begin

section \<open>The image matcher: data and failures\<close>

text \<open>
  The program \<^verbatim>\<open>image_matcher.cpp\<close> keeps a dataset as two parallel vectors,
  \<^verbatim>\<open>filenames\<close> (the identifiers) and \<^verbatim>\<open>data\<close> (one feature vector per row).
  Both are lists here, indexed by \<open>nat\<close>. A feature vector is a value of a type \<open>'v\<close>
  and a score a value of a linearly ordered type \<open>'s\<close>: the matching routines only
  pass vectors to the distance function and only compare the scores it returns
  (\<^verbatim>\<open>float\<close> values without NaN, on which \<^verbatim>\<open><\<close> is a strict total order, as
  \<^verbatim>\<open>std::sort\<close> requires).

  The distance functions of \<^verbatim>\<open>distance_calculate.h\<close> are collaborators of the
  matching routines. A call of one either returns a score or fails; a failure is not
  caught by any routine nor by \<^verbatim>\<open>main\<close>, so it ends the whole call.
\<close>

datatype error =
    TargetNotFound      \<comment> \<open>\<^verbatim>\<open>return -1\<close> after "Target image not found!"\<close>
  | DimensionMismatch   \<comment> \<open>failure raised by a distance function\<close>
  | OutOfRange          \<comment> \<open>\<^verbatim>\<open>operator[]\<close> beyond the end of a vector (undefined in C++)\<close>

type_synonym ('v, 's) metric = "'v \<Rightarrow> 'v \<Rightarrow> error + 's"

section \<open>Locating the target\<close>

text \<open>
  \<^verbatim>\<open>find_target_index\<close>: a linear scan that stops at the first filename equal to the
  target (\<^verbatim>\<open>strcmp(...) == 0\<close>) and returns its index, or \<open>-1\<close>.
\<close>

function find_target_loop :: "string \<Rightarrow> string list \<Rightarrow> nat \<Rightarrow> int" where
  "find_target_loop target_image_filename filenames i =
     (if i < length filenames
      then (if filenames ! i = target_image_filename then int i
            else find_target_loop target_image_filename filenames (Suc i))
      else - 1)"
  by pat_completeness auto
termination
  by (relation "measure (\<lambda>(t, filenames, i). length filenames - i)") auto

declare find_target_loop.simps [simp del]

definition find_target_index :: "string \<Rightarrow> string list \<Rightarrow> int" where
  "find_target_index target_image_filename filenames =
     find_target_loop target_image_filename filenames 0"

section \<open>The matching routines\<close>

text \<open>
  Step 2 of every routine: the loop over \<^verbatim>\<open>data\<close> that skips the row whose index is
  \<^verbatim>\<open>target_index\<close> and pushes the pair (distance, index) of every other row.
\<close>

function score_loop ::
  "('v, 's) metric \<Rightarrow> 'v list \<Rightarrow> 'v \<Rightarrow> nat \<Rightarrow> nat \<Rightarrow> ('s \<times> nat) list
     \<Rightarrow> error + ('s \<times> nat) list" where
  "score_loop calculate data target_vector target_index i distances =
     (if i < length data
      then (if i = target_index
            then score_loop calculate data target_vector target_index (Suc i) distances
            else (case calculate (data ! i) target_vector of
                    Inl e \<Rightarrow> Inl e
                  | Inr dst \<Rightarrow>
                      score_loop calculate data target_vector target_index (Suc i)
                        (distances @ [(dst, i)])))
      else Inr distances)"
  by pat_completeness auto
termination
  by (relation "measure (\<lambda>(c, data, tv, t, i, ds). length data - i)") auto

declare score_loop.simps [simp del]

text \<open>
  Step 4 of every routine: the loop
  \<^verbatim>\<open>for (int i = 0; i < N && i < distances.size(); i++)\<close> that pushes
  \<^verbatim>\<open>filenames[distances[i].second]\<close>.
\<close>

function output_loop ::
  "string list \<Rightarrow> int \<Rightarrow> ('s \<times> nat) list \<Rightarrow> nat \<Rightarrow> string list \<Rightarrow> error + string list" where
  "output_loop filenames N distances i output =
     (if int i < N \<and> i < length distances
      then (let match_index = snd (distances ! i)
            in if match_index < length filenames
               then output_loop filenames N distances (Suc i)
                      (output @ [filenames ! match_index])
               else Inl OutOfRange)
      else Inr output)"
  by pat_completeness auto
termination
  by (relation "measure (\<lambda>(filenames, N, distances, i, out). length distances - i)") auto

declare output_loop.simps [simp del]

text \<open>
  \<^verbatim>\<open>std::sort\<close> on a vector of \<^verbatim>\<open>pair<float, int>\<close> orders by the first component
  and then by the second, which is the order of \<open>'s \<times> nat\<close> here; \<open>sort\<close> is the sorted
  permutation. \<^verbatim>\<open>sort(distances.rbegin(), distances.rend())\<close> makes the vector
  ascending when read from its end, so the vector itself is \<open>rev (sort distances)\<close>.
\<close>

definition find_topN_matches_ssd ::
  "('v, 's::linorder) metric \<Rightarrow> string \<Rightarrow> string list \<Rightarrow> 'v list \<Rightarrow> int
     \<Rightarrow> error + string list" where
  "find_topN_matches_ssd calculate_ssd target_image_filename filenames data N =
     (let target_index = find_target_index target_image_filename filenames
      in if target_index = - 1 then Inl TargetNotFound
         else if \<not> nat target_index < length data then Inl OutOfRange
         else
           (let target_vector = data ! nat target_index
            in case score_loop calculate_ssd data target_vector (nat target_index) 0 [] of
                 Inl e \<Rightarrow> Inl e
               | Inr distances \<Rightarrow> output_loop filenames N (sort distances) 0 []))"

definition find_topN_matches_rgb_hist ::
  "('v, 's::linorder) metric \<Rightarrow> string \<Rightarrow> string list \<Rightarrow> 'v list \<Rightarrow> int
     \<Rightarrow> error + string list" where
  "find_topN_matches_rgb_hist calculate_histogramIntersection target_image_filename
       filenames data N =
     (let target_index = find_target_index target_image_filename filenames
      in if target_index = - 1 then Inl TargetNotFound
         else if \<not> nat target_index < length data then Inl OutOfRange
         else
           (let target_vector = data ! nat target_index
            in case score_loop calculate_histogramIntersection data target_vector
                      (nat target_index) 0 [] of
                 Inl e \<Rightarrow> Inl e
               | Inr distances \<Rightarrow> output_loop filenames N (rev (sort distances)) 0 []))"

definition find_topN_matches_multiHist ::
  "('v, 's::linorder) metric \<Rightarrow> string \<Rightarrow> string list \<Rightarrow> 'v list \<Rightarrow> int
     \<Rightarrow> error + string list" where
  "find_topN_matches_multiHist calculate_multiHist_distance target_image_filename
       filenames data N =
     (let target_index = find_target_index target_image_filename filenames
      in if target_index = - 1 then Inl TargetNotFound
         else if \<not> nat target_index < length data then Inl OutOfRange
         else
           (let target_vector = data ! nat target_index
            in case score_loop calculate_multiHist_distance data target_vector
                      (nat target_index) 0 [] of
                 Inl e \<Rightarrow> Inl e
               | Inr distances \<Rightarrow> output_loop filenames N (sort distances) 0 []))"

definition find_topN_matches_textureColor ::
  "('v, 's::linorder) metric \<Rightarrow> string \<Rightarrow> string list \<Rightarrow> 'v list \<Rightarrow> int
     \<Rightarrow> error + string list" where
  "find_topN_matches_textureColor calculate_textureColor_distance target_image_filename
       filenames data N =
     (let target_index = find_target_index target_image_filename filenames
      in if target_index = - 1 then Inl TargetNotFound
         else if \<not> nat target_index < length data then Inl OutOfRange
         else
           (let target = data ! nat target_index
            in case score_loop calculate_textureColor_distance data target
                      (nat target_index) 0 [] of
                 Inl e \<Rightarrow> Inl e
               | Inr distances \<Rightarrow> output_loop filenames N (sort distances) 0 []))"

section \<open>The program\<close>

text \<open>
  What \<^verbatim>\<open>main\<close> takes from outside this file: \<^verbatim>\<open>atoi\<close>, the CSV reader (which
  fills \<^verbatim>\<open>filenames\<close> and \<^verbatim>\<open>data\<close> and returns non-zero on failure, here \<open>None\<close>),
  the four distance functions and whether \<^verbatim>\<open>cv::imread\<close> yields an empty image.
\<close>

record ('v, 's) collaborators =
  atoi :: "string \<Rightarrow> int"
  read_image_data_csv :: "string \<Rightarrow> (string list \<times> 'v list) option"
  calculate_ssd :: "('v, 's) metric"
  calculate_histogramIntersection :: "('v, 's) metric"
  calculate_multiHist_distance :: "('v, 's) metric"
  calculate_textureColor_distance :: "('v, 's) metric"
  imread_empty :: "string \<Rightarrow> bool"

text \<open>What a run prints, in order, and how it ends.\<close>

datatype message =
    Usage
  | Metric_options
  | Find_similar string string
  | Invalid_N int
  | Invalid_metric string
  | Using_metric string
  | Cannot_read_csv string
  | Target_not_found
  | Cannot_process
  | Output_filenames "string list"
  | Target_empty
  | Display_gallery "string list"

datatype status =
    Exit int          \<comment> \<open>\<^verbatim>\<open>exit(n)\<close> or \<^verbatim>\<open>return n\<close> from \<^verbatim>\<open>main\<close>\<close>
  | Failed error      \<comment> \<open>a failure nothing catches\<close>

record run =
  printed :: "message list"
  status :: status

text \<open>
  \<^verbatim>\<open>main\<close>, with \<open>argv\<close> the list of all arguments (\<open>argc\<close> is its length). The
  variable \<^verbatim>\<open>result\<close> starts at \<open>-1\<close> with \<^verbatim>\<open>output\<close> empty and stays so when no
  branch of the dispatch is taken: that is \<open>None\<close> below. The two \<^verbatim>\<open>printf\<close> calls
  that announce the target and the feature file are one message. The arguments are
  taken to fit the 256-byte buffers they are copied into, and the number of rows to fit
  an \<^verbatim>\<open>int\<close>.
\<close>

definition main :: "('v, 's::linorder) collaborators \<Rightarrow> string list \<Rightarrow> run" where
  "main ext argv =
     (if length argv < 5 then \<lparr>printed = [Usage, Metric_options], status = Exit (- 1)\<rparr>
      else
        (let target_image = argv ! 1;
             feature_file = argv ! 2;
             out1 = [Find_similar target_image feature_file];
             N = atoi ext (argv ! 3)
         in if N \<le> 0 then \<lparr>printed = out1 @ [Invalid_N N], status = Exit (- 1)\<rparr>
            else
              (let distance_metric = argv ! 4;
                   out2 = out1 @
                     (if distance_metric \<noteq> ''ssd'' \<and> distance_metric \<noteq> ''rgb-hist''
                         \<and> distance_metric \<noteq> ''multi-hist''
                         \<and> distance_metric \<noteq> ''texture-color''
                         \<and> distance_metric \<noteq> ''depth-dnn''
                      then [Invalid_metric distance_metric, Using_metric distance_metric]
                      else [])
               in case read_image_data_csv ext feature_file of
                    None \<Rightarrow> \<lparr>printed = out2 @ [Cannot_read_csv feature_file],
                              status = Exit (- 1)\<rparr>
                  | Some (filenames, data) \<Rightarrow>
                      (let result =
                         (if distance_metric = ''ssd'' then
                            Some (find_topN_matches_ssd (calculate_ssd ext)
                                    target_image filenames data N)
                          else if distance_metric = ''rgb-hist'' then
                            Some (find_topN_matches_rgb_hist
                                    (calculate_histogramIntersection ext)
                                    target_image filenames data N)
                          else if distance_metric = ''multi-hist'' then
                            Some (find_topN_matches_multiHist
                                    (calculate_multiHist_distance ext)
                                    target_image filenames data N)
                          else if distance_metric = ''texture-color'' then
                            Some (find_topN_matches_textureColor
                                    (calculate_textureColor_distance ext)
                                    target_image filenames data N)
                          else if distance_metric = ''depth'' then
                            Some (find_topN_matches_textureColor
                                    (calculate_textureColor_distance ext)
                                    target_image filenames data N)
                          else None)
                       in case result of
                            None \<Rightarrow>
                              \<lparr>printed = out2 @ [Cannot_process], status = Exit (- 1)\<rparr>
                          | Some (Inl e) \<Rightarrow>
                              (if e = TargetNotFound
                               then \<lparr>printed = out2 @ [Target_not_found, Cannot_process],
                                     status = Exit (- 1)\<rparr>
                               else \<lparr>printed = out2, status = Failed e\<rparr>)
                          | Some (Inr output) \<Rightarrow>
                              (let out3 = out2 @ [Output_filenames output]
                               in if imread_empty ext target_image
                                  then \<lparr>printed = out3 @ [Target_empty],
                                        status = Exit (- 1)\<rparr>
                                  else \<lparr>printed = out3 @ [Display_gallery output],
                                        status = Exit 0\<rparr>)))))"

section \<open>The metrics of the specification\<close>

text \<open>
  Modelled from the spec: the distance functions \<^verbatim>\<open>calculate_ssd\<close>,
  \<^verbatim>\<open>calculate_histogramIntersection\<close>, \<^verbatim>\<open>calculate_multiHist_distance\<close> and
  \<^verbatim>\<open>calculate_textureColor_distance\<close> of \<^verbatim>\<open>distance_calculate.h\<close> are missing
  from the sources. The specification (section 4.1) gives each metric a check that
  both vectors have the same length, failing with \<open>DimensionMismatch\<close>, and the formulas
  \<open>\<Sum>(a\<^sub>i - b\<^sub>i)\<^sup>2\<close> and \<open>\<Sum>min(a\<^sub>i, b\<^sub>i)\<close>; it leaves the composite rule of the last two
  open, so that rule is a parameter. Vector elements are reals: rounding is not modelled.
\<close>

definition sum_of_squared_difference :: "(real list, real) metric" where
  "sum_of_squared_difference a b =
     (if length a \<noteq> length b then Inl DimensionMismatch
      else Inr (sum_list (map2 (\<lambda>x y. (x - y)\<^sup>2) a b)))"

definition histogram_intersection :: "(real list, real) metric" where
  "histogram_intersection a b =
     (if length a \<noteq> length b then Inl DimensionMismatch
      else Inr (sum_list (map2 min a b)))"

definition multi_region_histogram ::
  "(real list \<Rightarrow> real list \<Rightarrow> real) \<Rightarrow> (real list, real) metric" where
  "multi_region_histogram composite a b =
     (if length a \<noteq> length b then Inl DimensionMismatch else Inr (composite a b))"

definition texture_and_color_combined ::
  "(real list \<Rightarrow> real list \<Rightarrow> real) \<Rightarrow> (real list, real) metric" where
  "texture_and_color_combined composite a b =
     (if length a \<noteq> length b then Inl DimensionMismatch else Inr (composite a b))"

section \<open>Vocabulary of the properties\<close>

text \<open>
  \<open>scored_rows calculate target filenames data ds\<close>: the list \<open>ds\<close> holds, in some order,
  one pair (score, row index) for every row of \<open>data\<close> other than the row found for the
  target, and no other pair; each score is the one the distance function returns for
  that row against the target's row.
\<close>

definition scored_rows ::
  "('v, 's) metric \<Rightarrow> string \<Rightarrow> string list \<Rightarrow> 'v list \<Rightarrow> ('s \<times> nat) list \<Rightarrow> bool" where
  "scored_rows calculate target filenames data ds \<longleftrightarrow>
     mset (map snd ds) =
       mset (filter (\<lambda>j. int j \<noteq> find_target_index target filenames) [0..<length data])
     \<and> (\<forall>m \<in> set ds.
           calculate (data ! snd m) (data ! nat (find_target_index target filenames))
             = Inr (fst m))"

text \<open>The identifiers of a list of pairs, as Step 4 reads them.\<close>

definition identifiers :: "string list \<Rightarrow> ('s \<times> nat) list \<Rightarrow> string list" where
  "identifiers filenames ms = map (\<lambda>m. filenames ! snd m) ms"

text \<open>
  What the C++ standard promises of \<^verbatim>\<open>std::sort(first, last)\<close>: the range is a
  permutation of what it was and is sorted; the order of equivalent elements is not
  promised. \<open>std_sort\<close> is the set of vectors a conforming sort may leave, and
  \<open>std_sort_reversed\<close> the same for the call on the reverse iterators.
\<close>

definition std_sort :: "'a::linorder list \<Rightarrow> 'a list set" where
  "std_sort xs = {ys. mset ys = mset xs \<and> sorted ys}"

definition std_sort_reversed :: "'a::linorder list \<Rightarrow> 'a list set" where
  "std_sort_reversed xs = {ys. mset ys = mset xs \<and> sorted (rev ys)}"

text \<open>
  The results \<^verbatim>\<open>find_topN_matches_ssd\<close> and \<^verbatim>\<open>find_topN_matches_rgb_hist\<close> can
  produce when Step 3 is any conforming sort.
\<close>

definition ssd_outcomes ::
  "('v, 's::linorder) metric \<Rightarrow> string \<Rightarrow> string list \<Rightarrow> 'v list \<Rightarrow> int
     \<Rightarrow> (error + string list) set" where
  "ssd_outcomes calculate target_image_filename filenames data N =
     (let target_index = find_target_index target_image_filename filenames
      in if target_index = - 1 then {Inl TargetNotFound}
         else if \<not> nat target_index < length data then {Inl OutOfRange}
         else
           (let target_vector = data ! nat target_index
            in case score_loop calculate data target_vector (nat target_index) 0 [] of
                 Inl e \<Rightarrow> {Inl e}
               | Inr distances \<Rightarrow>
                   (\<lambda>sorted_distances. output_loop filenames N sorted_distances 0 [])
                     ` std_sort distances))"

definition rgb_hist_outcomes ::
  "('v, 's::linorder) metric \<Rightarrow> string \<Rightarrow> string list \<Rightarrow> 'v list \<Rightarrow> int
     \<Rightarrow> (error + string list) set" where
  "rgb_hist_outcomes calculate target_image_filename filenames data N =
     (let target_index = find_target_index target_image_filename filenames
      in if target_index = - 1 then {Inl TargetNotFound}
         else if \<not> nat target_index < length data then {Inl OutOfRange}
         else
           (let target_vector = data ! nat target_index
            in case score_loop calculate data target_vector (nat target_index) 0 [] of
                 Inl e \<Rightarrow> {Inl e}
               | Inr distances \<Rightarrow>
                   (\<lambda>sorted_distances. output_loop filenames N sorted_distances 0 [])
                     ` std_sort_reversed distances))"

section \<open>The loops\<close>

lemma find_target_loop_cases:
  "(find_target_loop t fs i = - 1 \<and> (\<forall>j. i \<le> j \<and> j < length fs \<longrightarrow> fs ! j \<noteq> t))
   \<or> (\<exists>k. find_target_loop t fs i = int k \<and> i \<le> k \<and> k < length fs \<and> fs ! k = t
          \<and> (\<forall>j. i \<le> j \<and> j < k \<longrightarrow> fs ! j \<noteq> t))"
proof (induction t fs i rule: find_target_loop.induct)
  case (1 t fs i)
  show ?case
  proof (cases "i < length fs")
    case False
    then have "find_target_loop t fs i = - 1"
      by (subst find_target_loop.simps) simp
    then show ?thesis using False by auto
  next
    case True
    show ?thesis
    proof (cases "fs ! i = t")
      case hit: True
      have "find_target_loop t fs i = int i"
        using True hit by (subst find_target_loop.simps) simp
      then show ?thesis using True hit by auto
    next
      case miss: False
      have eq: "find_target_loop t fs i = find_target_loop t fs (Suc i)"
        using True miss by (subst find_target_loop.simps) simp
      have nxt: "\<And>j. i \<le> j \<Longrightarrow> j \<noteq> i \<Longrightarrow> Suc i \<le> j" by simp
      from "1.IH"[OF True miss] show ?thesis
      proof
        assume a: "find_target_loop t fs (Suc i) = - 1 \<and>
          (\<forall>j. Suc i \<le> j \<and> j < length fs \<longrightarrow> fs ! j \<noteq> t)"
        have "\<forall>j. i \<le> j \<and> j < length fs \<longrightarrow> fs ! j \<noteq> t"
        proof (intro allI impI)
          fix j assume "i \<le> j \<and> j < length fs"
          then show "fs ! j \<noteq> t" using a miss by (cases "j = i") auto
        qed
        then show ?thesis using a eq by simp
      next
        assume "\<exists>k. find_target_loop t fs (Suc i) = int k \<and> Suc i \<le> k \<and> k < length fs
           \<and> fs ! k = t \<and> (\<forall>j. Suc i \<le> j \<and> j < k \<longrightarrow> fs ! j \<noteq> t)"
        then obtain k where k: "find_target_loop t fs (Suc i) = int k" "Suc i \<le> k"
          "k < length fs" "fs ! k = t" "\<forall>j. Suc i \<le> j \<and> j < k \<longrightarrow> fs ! j \<noteq> t" by blast
        have "\<forall>j. i \<le> j \<and> j < k \<longrightarrow> fs ! j \<noteq> t"
        proof (intro allI impI)
          fix j assume "i \<le> j \<and> j < k"
          then show "fs ! j \<noteq> t" using k(5) miss by (cases "j = i") auto
        qed
        then show ?thesis using k eq by auto
      qed
    qed
  qed
qed

lemma find_target_index_cases:
  "(find_target_index t fs = - 1 \<and> t \<notin> set fs)
   \<or> (\<exists>k. find_target_index t fs = int k \<and> k < length fs \<and> fs ! k = t
          \<and> (\<forall>j<k. fs ! j \<noteq> t))"
  using find_target_loop_cases[of t fs 0]
  by (auto simp: find_target_index_def in_set_conv_nth)

lemma score_loop_Inr:
  "score_loop c data tv t i acc = Inr ds \<Longrightarrow>
   \<exists>ms. ds = acc @ ms \<and> map snd ms = filter (\<lambda>j. j \<noteq> t) [i..<length data]
       \<and> (\<forall>m \<in> set ms. c (data ! snd m) tv = Inr (fst m))"
proof (induction c data tv t i acc rule: score_loop.induct)
  case (1 c data tv t i acc)
  show ?case
  proof (cases "i < length data")
    case False
    then show ?thesis using "1.prems" by (subst (asm) score_loop.simps) simp
  next
    case True
    then have up: "[i..<length data] = i # [Suc i..<length data]"
      by (simp add: upt_conv_Cons)
    show ?thesis
    proof (cases "i = t")
      case skip: True
      have "score_loop c data tv t (Suc i) acc = Inr ds"
        using "1.prems" True skip by (subst (asm) score_loop.simps) simp
      from "1.IH"(1)[OF True skip this] show ?thesis using up skip by simp
    next
      case noskip: False
      show ?thesis
      proof (cases "c (data ! i) tv")
        case (Inl e)
        then show ?thesis using "1.prems" True noskip
          by (subst (asm) score_loop.simps) simp
      next
        case (Inr s)
        have "score_loop c data tv t (Suc i) (acc @ [(s, i)]) = Inr ds"
          using "1.prems" True noskip Inr by (subst (asm) score_loop.simps) simp
        from "1.IH"(2)[OF True noskip Inr this]
        obtain ms where ms: "ds = (acc @ [(s, i)]) @ ms"
          "map snd ms = filter (\<lambda>j. j \<noteq> t) [Suc i..<length data]"
          "\<forall>m \<in> set ms. c (data ! snd m) tv = Inr (fst m)" by blast
        have "ds = acc @ ((s, i) # ms)" using ms(1) by simp
        moreover have "map snd ((s, i) # ms) = filter (\<lambda>j. j \<noteq> t) [i..<length data]"
          using ms(2) up noskip by simp
        moreover have "\<forall>m \<in> set ((s, i) # ms). c (data ! snd m) tv = Inr (fst m)"
          using ms(3) Inr by simp
        ultimately show ?thesis by blast
      qed
    qed
  qed
qed

lemma score_loop_Inl:
  "score_loop c data tv t i acc = Inl e \<Longrightarrow>
   \<exists>j. i \<le> j \<and> j < length data \<and> j \<noteq> t \<and> c (data ! j) tv = Inl e"
proof (induction c data tv t i acc rule: score_loop.induct)
  case (1 c data tv t i acc)
  show ?case
  proof (cases "i < length data")
    case False
    then show ?thesis using "1.prems" by (subst (asm) score_loop.simps) simp
  next
    case True
    show ?thesis
    proof (cases "i = t")
      case skip: True
      have "score_loop c data tv t (Suc i) acc = Inl e"
        using "1.prems" True skip by (subst (asm) score_loop.simps) simp
      from "1.IH"(1)[OF True skip this] show ?thesis by (meson Suc_leD)
    next
      case noskip: False
      show ?thesis
      proof (cases "c (data ! i) tv")
        case (Inl e')
        then have "e' = e" using "1.prems" True noskip
          by (subst (asm) score_loop.simps) simp
        then show ?thesis using Inl True noskip by blast
      next
        case (Inr s)
        have "score_loop c data tv t (Suc i) (acc @ [(s, i)]) = Inl e"
          using "1.prems" True noskip Inr by (subst (asm) score_loop.simps) simp
        from "1.IH"(2)[OF True noskip Inr this] show ?thesis by (meson Suc_leD)
      qed
    qed
  qed
qed

lemma output_loop_Inr:
  "output_loop fs N ds i out = Inr r \<Longrightarrow>
   r = out @ map (\<lambda>m. fs ! snd m) (drop i (take (nat N) ds))
   \<and> (\<forall>m \<in> set (drop i (take (nat N) ds)). snd m < length fs)"
proof (induction fs N ds i out arbitrary: r rule: output_loop.induct)
  case (1 fs N ds i out)
  show ?case
  proof (cases "int i < N \<and> i < length ds")
    case False
    then have "drop i (take (nat N) ds) = []" by auto
    moreover have "r = out" using "1.prems" False by (subst (asm) output_loop.simps) auto
    ultimately show ?thesis by simp
  next
    case True
    then have lt: "i < length (take (nat N) ds)" by auto
    have dr: "drop i (take (nat N) ds) = ds ! i # drop (Suc i) (take (nat N) ds)"
      using lt True by (metis Cons_nth_drop_Suc nth_take length_take min_less_iff_conj)
    show ?thesis
    proof (cases "snd (ds ! i) < length fs")
      case False
      then show ?thesis using "1.prems" True by (subst (asm) output_loop.simps) (simp add: Let_def)
    next
      case ok: True
      have "output_loop fs N ds (Suc i) (out @ [fs ! snd (ds ! i)]) = Inr r"
        using "1.prems" True ok by (subst (asm) output_loop.simps) (simp add: Let_def)
      from "1.IH"[OF True refl ok this] show ?thesis using dr ok by simp
    qed
  qed
qed

lemma output_loop_ok:
  "\<forall>m \<in> set ds. snd m < length fs \<Longrightarrow>
   output_loop fs N ds i out = Inr (out @ map (\<lambda>m. fs ! snd m) (drop i (take (nat N) ds)))"
proof (induction fs N ds i out rule: output_loop.induct)
  case (1 fs N ds i out)
  show ?case
  proof (cases "int i < N \<and> i < length ds")
    case False
    then have "drop i (take (nat N) ds) = []" by auto
    then show ?thesis using False by (subst output_loop.simps) auto
  next
    case True
    then have lt: "i < length (take (nat N) ds)" by auto
    have dr: "drop i (take (nat N) ds) = ds ! i # drop (Suc i) (take (nat N) ds)"
      using lt True by (metis Cons_nth_drop_Suc nth_take length_take min_less_iff_conj)
    have ok: "snd (ds ! i) < length fs" using "1.prems" True by simp
    have "output_loop fs N ds i out = output_loop fs N ds (Suc i) (out @ [fs ! snd (ds ! i)])"
      using True ok by (subst output_loop.simps) (simp add: Let_def)
    also have "\<dots> = Inr ((out @ [fs ! snd (ds ! i)]) @
        map (\<lambda>m. fs ! snd m) (drop (Suc i) (take (nat N) ds)))"
      using "1.IH"[OF True refl ok "1.prems"] .
    finally show ?thesis using dr by simp
  qed
qed

section \<open>The routines\<close>

lemma multiHist_is_ssd: "find_topN_matches_multiHist = find_topN_matches_ssd"
  by (intro ext) (simp add: find_topN_matches_multiHist_def find_topN_matches_ssd_def)

lemma textureColor_is_ssd: "find_topN_matches_textureColor = find_topN_matches_ssd"
  by (intro ext) (simp add: find_topN_matches_textureColor_def find_topN_matches_ssd_def)

lemma ascending_routine_is_ssd:
  "R \<in> {find_topN_matches_ssd, find_topN_matches_multiHist, find_topN_matches_textureColor}
   \<Longrightarrow> R = find_topN_matches_ssd"
  by (auto simp: multiHist_is_ssd textureColor_is_ssd)

lemma scored_rows_perm:
  "mset ds' = mset ds \<Longrightarrow> scored_rows c tgt fs data ds \<Longrightarrow> scored_rows c tgt fs data ds'"
proof -
  assume p: "mset ds' = mset ds" and s: "scored_rows c tgt fs data ds"
  have "mset (map snd ds') = mset (map snd ds)" using p by (metis mset_map)
  moreover have "set ds' = set ds" using p by (metis set_mset_mset)
  ultimately show ?thesis using s by (simp add: scored_rows_def)
qed

lemma score_loop_scored_rows:
  assumes "find_target_index tgt fs = int t"
    and "score_loop c data (data ! t) t 0 [] = Inr ds"
  shows "scored_rows c tgt fs data ds"
    and "map snd ds = filter (\<lambda>j. j \<noteq> t) [0..<length data]"
proof -
  from score_loop_Inr[OF assms(2)]
  have m: "map snd ds = filter (\<lambda>j. j \<noteq> t) [0..<length data]"
    and v: "\<forall>m \<in> set ds. c (data ! snd m) (data ! t) = Inr (fst m)" by auto
  show "map snd ds = filter (\<lambda>j. j \<noteq> t) [0..<length data]" by (rule m)
  show "scored_rows c tgt fs data ds"
    using m v assms(1) by (simp add: scored_rows_def)
qed

lemma scored_rows_indices:
  assumes "scored_rows c tgt fs data ds" and "find_target_index tgt fs = int t"
  shows "snd ` set ds = {j. j < length data \<and> j \<noteq> t}" and "distinct (map snd ds)"
proof -
  have m: "mset (map snd ds) = mset (filter (\<lambda>j. j \<noteq> t) [0..<length data])"
    using assms by (simp add: scored_rows_def)
  have "set (map snd ds) = set (filter (\<lambda>j. j \<noteq> t) [0..<length data])"
    using m by (metis set_mset_mset)
  then show "snd ` set ds = {j. j < length data \<and> j \<noteq> t}" by auto
  have "distinct (filter (\<lambda>j. j \<noteq> t) [0..<length data])" by simp
  then show "distinct (map snd ds)" using m by (metis mset_eq_imp_distinct_iff)
qed

lemma scored_rows_length:
  assumes "scored_rows c tgt fs data ds" and "find_target_index tgt fs = int t"
    and "t < length data"
  shows "length ds = length data - 1"
proof -
  have m: "mset (map snd ds) = mset (filter (\<lambda>j. j \<noteq> t) [0..<length data])"
    using assms by (simp add: scored_rows_def)
  have "length (map snd ds) = length (filter (\<lambda>j. j \<noteq> t) [0..<length data])"
    using m by (metis size_mset)
  moreover have "length (filter (\<lambda>j. j \<noteq> t) [0..<length data]) = length data - 1"
  proof -
    have d: "distinct (filter (\<lambda>j. j \<noteq> t) [0..<length data])" by simp
    have "set (filter (\<lambda>j. j \<noteq> t) [0..<length data]) = {..<length data} - {t}"
      by auto
    moreover have "card ({..<length data} - {t}) = length data - 1"
      using assms(3) by simp
    ultimately show ?thesis using distinct_card[OF d] by simp
  qed
  ultimately show ?thesis by simp
qed

lemma ssd_found:
  "find_target_index tgt fs = int t \<Longrightarrow> t < length data \<Longrightarrow>
   find_topN_matches_ssd c tgt fs data N =
     (case score_loop c data (data ! t) t 0 [] of Inl e \<Rightarrow> Inl e
      | Inr ds \<Rightarrow> output_loop fs N (sort ds) 0 [])"
  by (simp add: find_topN_matches_ssd_def Let_def)

lemma rgb_hist_found:
  "find_target_index tgt fs = int t \<Longrightarrow> t < length data \<Longrightarrow>
   find_topN_matches_rgb_hist c tgt fs data N =
     (case score_loop c data (data ! t) t 0 [] of Inl e \<Rightarrow> Inl e
      | Inr ds \<Rightarrow> output_loop fs N (rev (sort ds)) 0 [])"
  by (simp add: find_topN_matches_rgb_hist_def Let_def)

text \<open>The shape of every successful result.\<close>

lemma ssd_success:
  assumes "find_topN_matches_ssd c tgt fs data N = Inr out"
  shows "\<exists>t ds. find_target_index tgt fs = int t \<and> t < length fs \<and> fs ! t = tgt
           \<and> (\<forall>j<t. fs ! j \<noteq> tgt) \<and> t < length data
           \<and> score_loop c data (data ! t) t 0 [] = Inr ds
           \<and> out = identifiers fs (take (nat N) (sort ds))
           \<and> (\<forall>m \<in> set (take (nat N) (sort ds)). snd m < length fs)"
proof -
  from find_target_index_cases[of tgt fs] show ?thesis
  proof
    assume "find_target_index tgt fs = - 1 \<and> tgt \<notin> set fs"
    then show ?thesis using assms by (simp add: find_topN_matches_ssd_def)
  next
    assume "\<exists>k. find_target_index tgt fs = int k \<and> k < length fs \<and> fs ! k = tgt
          \<and> (\<forall>j<k. fs ! j \<noteq> tgt)"
    then obtain t where t: "find_target_index tgt fs = int t" "t < length fs"
      "fs ! t = tgt" "\<forall>j<t. fs ! j \<noteq> tgt" by blast
    have td: "t < length data"
      using assms t(1) by (simp add: find_topN_matches_ssd_def Let_def split: if_splits)
    have run: "(case score_loop c data (data ! t) t 0 [] of Inl e \<Rightarrow> Inl e
                | Inr ds \<Rightarrow> output_loop fs N (sort ds) 0 []) = Inr out"
      using assms ssd_found[OF t(1) td, of c N] by simp
    obtain ds where ds: "score_loop c data (data ! t) t 0 [] = Inr ds"
      and o: "output_loop fs N (sort ds) 0 [] = Inr out"
      using run by (cases "score_loop c data (data ! t) t 0 []") simp_all
    from output_loop_Inr[OF o]
    have "out = identifiers fs (take (nat N) (sort ds))"
      and "\<forall>m \<in> set (take (nat N) (sort ds)). snd m < length fs"
      by (simp_all add: identifiers_def)
    then show ?thesis using t td ds by blast
  qed
qed

lemma rgb_hist_success:
  assumes "find_topN_matches_rgb_hist c tgt fs data N = Inr out"
  shows "\<exists>t ds. find_target_index tgt fs = int t \<and> t < length fs \<and> fs ! t = tgt
           \<and> (\<forall>j<t. fs ! j \<noteq> tgt) \<and> t < length data
           \<and> score_loop c data (data ! t) t 0 [] = Inr ds
           \<and> out = identifiers fs (take (nat N) (rev (sort ds)))
           \<and> (\<forall>m \<in> set (take (nat N) (rev (sort ds))). snd m < length fs)"
proof -
  from find_target_index_cases[of tgt fs] show ?thesis
  proof
    assume "find_target_index tgt fs = - 1 \<and> tgt \<notin> set fs"
    then show ?thesis using assms by (simp add: find_topN_matches_rgb_hist_def)
  next
    assume "\<exists>k. find_target_index tgt fs = int k \<and> k < length fs \<and> fs ! k = tgt
          \<and> (\<forall>j<k. fs ! j \<noteq> tgt)"
    then obtain t where t: "find_target_index tgt fs = int t" "t < length fs"
      "fs ! t = tgt" "\<forall>j<t. fs ! j \<noteq> tgt" by blast
    have td: "t < length data"
      using assms t(1) by (simp add: find_topN_matches_rgb_hist_def Let_def split: if_splits)
    have run: "(case score_loop c data (data ! t) t 0 [] of Inl e \<Rightarrow> Inl e
                | Inr ds \<Rightarrow> output_loop fs N (rev (sort ds)) 0 []) = Inr out"
      using assms rgb_hist_found[OF t(1) td, of c N] by simp
    obtain ds where ds: "score_loop c data (data ! t) t 0 [] = Inr ds"
      and o: "output_loop fs N (rev (sort ds)) 0 [] = Inr out"
      using run by (cases "score_loop c data (data ! t) t 0 []") simp_all
    from output_loop_Inr[OF o]
    have "out = identifiers fs (take (nat N) (rev (sort ds)))"
      and "\<forall>m \<in> set (take (nat N) (rev (sort ds))). snd m < length fs"
      by (simp_all add: identifiers_def)
    then show ?thesis using t td ds by blast
  qed
qed

text \<open>
  Every routine as one statement: the result is read off a list \<open>ms\<close> that holds the
  scored rows in the routine's order.
\<close>

lemma any_routine_success:
  assumes "R \<in> {find_topN_matches_ssd, find_topN_matches_rgb_hist,
                find_topN_matches_multiHist, find_topN_matches_textureColor}"
    and "R c tgt fs data N = Inr out"
  shows "\<exists>t ms. find_target_index tgt fs = int t \<and> t < length fs \<and> fs ! t = tgt
           \<and> (\<forall>j<t. fs ! j \<noteq> tgt) \<and> t < length data
           \<and> scored_rows c tgt fs data ms
           \<and> out = identifiers fs (take (nat N) ms)
           \<and> (\<forall>m \<in> set (take (nat N) ms). snd m < length fs)"
proof (cases "R = find_topN_matches_rgb_hist")
  case True
  from rgb_hist_success[OF assms(2)[unfolded True]]
  obtain t ds where t: "find_target_index tgt fs = int t" "t < length fs" "fs ! t = tgt"
    "\<forall>j<t. fs ! j \<noteq> tgt" "t < length data"
    "score_loop c data (data ! t) t 0 [] = Inr ds"
    "out = identifiers fs (take (nat N) (rev (sort ds)))"
    "\<forall>m \<in> set (take (nat N) (rev (sort ds))). snd m < length fs" by blast
  have "scored_rows c tgt fs data (rev (sort ds))"
    using scored_rows_perm[OF _ score_loop_scored_rows(1)[OF t(1) t(6)], of "rev (sort ds)"]
    by simp
  then show ?thesis using t by blast
next
  case False
  then have "R = find_topN_matches_ssd"
    using assms(1) by (auto simp: multiHist_is_ssd textureColor_is_ssd)
  from ssd_success[OF assms(2)[unfolded this]]
  obtain t ds where t: "find_target_index tgt fs = int t" "t < length fs" "fs ! t = tgt"
    "\<forall>j<t. fs ! j \<noteq> tgt" "t < length data"
    "score_loop c data (data ! t) t 0 [] = Inr ds"
    "out = identifiers fs (take (nat N) (sort ds))"
    "\<forall>m \<in> set (take (nat N) (sort ds)). snd m < length fs" by blast
  have "scored_rows c tgt fs data (sort ds)"
    using scored_rows_perm[OF _ score_loop_scored_rows(1)[OF t(1) t(6)], of "sort ds"]
    by simp
  then show ?thesis using t by blast
qed

section \<open>Failures\<close>

lemma find_target_index_absent:
  "target \<notin> set filenames \<Longrightarrow> find_target_index target filenames = - 1"
  using find_target_index_cases[of target filenames] by auto

text \<open>
  C7. When the query identifier is not among the filenames, every matching routine
  returns the failure "target not found", whatever the distance function is: no row is
  scored before the failure, since a distance function that always fails does not
  change the result.
\<close>

theorem absent_target_fails_before_scoring:
  assumes "target \<notin> set filenames"
    and "R \<in> {find_topN_matches_ssd, find_topN_matches_rgb_hist,
                find_topN_matches_multiHist, find_topN_matches_textureColor}"
  shows "R calculate target filenames data N = Inl TargetNotFound"
proof -
  have "find_target_index target filenames = - 1"
    using assms(1) by (rule find_target_index_absent)
  then have "find_topN_matches_ssd calculate target filenames data N = Inl TargetNotFound"
    and "find_topN_matches_rgb_hist calculate target filenames data N = Inl TargetNotFound"
    by (simp_all add: find_topN_matches_ssd_def find_topN_matches_rgb_hist_def)
  then show ?thesis
    using assms(2) by (auto simp: multiHist_is_ssd textureColor_is_ssd)
qed

theorem absent_target_fails_before_scoring_witness:
  "''Z'' \<notin> set [''A'', ''B'']
   \<and> find_topN_matches_rgb_hist (\<lambda>a b. Inl DimensionMismatch :: error + real)
        ''Z'' [''A'', ''B''] [[0::real], [1]] 3 = Inl TargetNotFound"
proof -
  have h: "''Z'' \<notin> set [''A'', ''B'']" by simp
  show ?thesis
    using h absent_target_fails_before_scoring[OF h, of find_topN_matches_rgb_hist
        "\<lambda>a b. Inl DimensionMismatch :: error + real" "[[0::real], [1]]" 3]
    by simp
qed

text \<open>
  C8. When the count read from the command line is zero or negative, the program prints
  the message for an invalid N and exits with status -1. Nothing of the run depends on
  the feature file, the metric name or the distance functions: the check comes before
  the file is read and before any routine is called.
\<close>

theorem nonpositive_N_rejected_first:
  assumes "5 \<le> length argv" and "atoi ext (argv ! 3) \<le> 0"
  shows "main ext argv =
           \<lparr>printed = [Find_similar (argv ! 1) (argv ! 2), Invalid_N (atoi ext (argv ! 3))],
            status = Exit (- 1)\<rparr>"
  using assms by (simp add: main_def Let_def)

theorem nonpositive_N_rejected_first_witness:
  "main \<lparr>atoi = (\<lambda>s. 0), read_image_data_csv = (\<lambda>f. Some ([''A'', ''B''], [[0], [1]])),
         calculate_ssd = sum_of_squared_difference,
         calculate_histogramIntersection = histogram_intersection,
         calculate_multiHist_distance = multi_region_histogram (\<lambda>a b. 0),
         calculate_textureColor_distance = texture_and_color_combined (\<lambda>a b. 0),
         imread_empty = (\<lambda>f. False)\<rparr>
      [''image_matcher'', ''A'', ''features.csv'', ''0'', ''ssd'']
    = \<lparr>printed = [Find_similar ''A'' ''features.csv'', Invalid_N 0], status = Exit (- 1)\<rparr>"
  using nonpositive_N_rejected_first[of
      "[''image_matcher'', ''A'', ''features.csv'', ''0'', ''ssd'']"
      "\<lparr>atoi = (\<lambda>s. 0), read_image_data_csv = (\<lambda>f. Some ([''A'', ''B''], [[0], [1]])),
         calculate_ssd = sum_of_squared_difference,
         calculate_histogramIntersection = histogram_intersection,
         calculate_multiHist_distance = multi_region_histogram (\<lambda>a b. 0),
         calculate_textureColor_distance = texture_and_color_combined (\<lambda>a b. 0),
         imread_empty = (\<lambda>f. False)\<rparr>"]
  by simp

lemma two_rows_find: "find_target_index ''A'' [''A'', ''B''] = int 0"
  by (simp add: find_target_index_def find_target_loop.simps)

lemma two_rows_textureColor:
  "find_topN_matches_textureColor (texture_and_color_combined composite)
     ''A'' [''A'', ''B''] [[0], [1]] 3 = Inr [''B'']"
proof -
  have s: "score_loop (texture_and_color_combined composite) [[0], [1]] [0] 0 0 []
      = Inr [(composite [1] [0], 1)]"
    by (simp add: score_loop.simps texture_and_color_combined_def)
  have o: "output_loop [''A'', ''B''] 3 [(composite [1] [0], 1)] 0 [] = Inr [''B'']"
    by (simp add: output_loop.simps)
  show ?thesis
    using ssd_found[OF two_rows_find, of "[[0], [1]]"
        "texture_and_color_combined composite" 3] s o
    by (simp add: textureColor_is_ssd)
qed

text \<open>
  C1. The metric name "depth" is not among the names the program accepts (it prints
  the message for an invalid metric), yet the run goes on, ranks with the
  texture-and-colour routine and ends with status 0. A name that no branch of the
  dispatch knows, such as "cosine-unsupported", gets the same message, after which the
  feature file is still read and the run ends with the common message and status -1.
  The name "depth-dnn" passes the check of the names, is known to no branch of the
  dispatch and ends the same way without the message for an invalid metric.
\<close>

theorem unaccepted_metric_name_is_not_rejected:
  "main \<lparr>atoi = (\<lambda>s. 3), read_image_data_csv = (\<lambda>f. Some ([''A'', ''B''], [[0], [1]])),
         calculate_ssd = sum_of_squared_difference,
         calculate_histogramIntersection = histogram_intersection,
         calculate_multiHist_distance = multi_region_histogram composite,
         calculate_textureColor_distance = texture_and_color_combined composite,
         imread_empty = (\<lambda>f. False)\<rparr>
      [''image_matcher'', ''A'', ''features.csv'', ''3'', ''depth'']
    = \<lparr>printed = [Find_similar ''A'' ''features.csv'', Invalid_metric ''depth'',
                   Using_metric ''depth'', Output_filenames [''B''],
                   Display_gallery [''B'']],
       status = Exit 0\<rparr>
   \<and> main \<lparr>atoi = (\<lambda>s. 3), read_image_data_csv = (\<lambda>f. Some ([''A'', ''B''], [[0], [1]])),
         calculate_ssd = sum_of_squared_difference,
         calculate_histogramIntersection = histogram_intersection,
         calculate_multiHist_distance = multi_region_histogram composite,
         calculate_textureColor_distance = texture_and_color_combined composite,
         imread_empty = (\<lambda>f. False)\<rparr>
      [''image_matcher'', ''A'', ''features.csv'', ''3'', ''cosine-unsupported'']
    = \<lparr>printed = [Find_similar ''A'' ''features.csv'',
                   Invalid_metric ''cosine-unsupported'',
                   Using_metric ''cosine-unsupported'', Cannot_process],
       status = Exit (- 1)\<rparr>
   \<and> main \<lparr>atoi = (\<lambda>s. 3), read_image_data_csv = (\<lambda>f. Some ([''A'', ''B''], [[0], [1]])),
         calculate_ssd = sum_of_squared_difference,
         calculate_histogramIntersection = histogram_intersection,
         calculate_multiHist_distance = multi_region_histogram composite,
         calculate_textureColor_distance = texture_and_color_combined composite,
         imread_empty = (\<lambda>f. False)\<rparr>
      [''image_matcher'', ''A'', ''features.csv'', ''3'', ''depth-dnn'']
    = \<lparr>printed = [Find_similar ''A'' ''features.csv'', Cannot_process],
       status = Exit (- 1)\<rparr>"
  by (simp add: main_def Let_def two_rows_textureColor)

section \<open>Sorting\<close>

lemma std_sort_unique: "std_sort xs = {sort xs}"
proof (rule set_eqI)
  fix ys
  show "ys \<in> std_sort xs \<longleftrightarrow> ys \<in> {sort xs}"
  proof
    assume "ys \<in> std_sort xs"
    then have "mset ys = mset xs" and "sorted ys" by (simp_all add: std_sort_def)
    from properties_for_sort[OF this] show "ys \<in> {sort xs}" by simp
  next
    assume "ys \<in> {sort xs}"
    then show "ys \<in> std_sort xs" by (simp add: std_sort_def)
  qed
qed

lemma std_sort_reversed_unique: "std_sort_reversed xs = {rev (sort xs)}"
proof (rule set_eqI)
  fix ys
  show "ys \<in> std_sort_reversed xs \<longleftrightarrow> ys \<in> {rev (sort xs)}"
  proof
    assume "ys \<in> std_sort_reversed xs"
    then have "mset (rev ys) = mset xs" and "sorted (rev ys)"
      by (simp_all add: std_sort_reversed_def)
    from properties_for_sort[OF this] have "rev (rev ys) = rev (sort xs)" by simp
    then show "ys \<in> {rev (sort xs)}" by simp
  next
    assume "ys \<in> {rev (sort xs)}"
    then show "ys \<in> std_sort_reversed xs" by (simp add: std_sort_reversed_def)
  qed
qed

text \<open>
  C9. Whatever a conforming \<^verbatim>\<open>std::sort\<close> does with the pairs, a routine has one
  possible result for given inputs, the one the function computes: the pairs carry
  distinct row indices, so no two of them are equivalent and the sorted vector is
  unique, ties included. The routines for the multi-histogram and the texture-colour
  metric are the ascending routine with another distance function.
\<close>

theorem routines_have_one_outcome:
  "ssd_outcomes calculate target filenames data N
     = {find_topN_matches_ssd calculate target filenames data N}
   \<and> rgb_hist_outcomes calculate target filenames data N
     = {find_topN_matches_rgb_hist calculate target filenames data N}
   \<and> ssd_outcomes calculate target filenames data N
     = {find_topN_matches_multiHist calculate target filenames data N}
   \<and> ssd_outcomes calculate target filenames data N
     = {find_topN_matches_textureColor calculate target filenames data N}"
proof -
  let ?t = "find_target_index target filenames"
  let ?sc = "score_loop calculate data (data ! nat ?t) (nat ?t) 0 []"
  have a: "ssd_outcomes calculate target filenames data N
     = {find_topN_matches_ssd calculate target filenames data N}"
  proof (cases "?t = - 1 \<or> \<not> nat ?t < length data")
    case True
    then show ?thesis
      by (auto simp: ssd_outcomes_def find_topN_matches_ssd_def Let_def)
  next
    case False
    show ?thesis
    proof (cases ?sc)
      case (Inl e)
      then show ?thesis using False
        by (simp add: ssd_outcomes_def find_topN_matches_ssd_def Let_def)
    next
      case (Inr ds)
      then show ?thesis using False
        by (simp add: ssd_outcomes_def find_topN_matches_ssd_def Let_def std_sort_unique)
    qed
  qed
  have b: "rgb_hist_outcomes calculate target filenames data N
     = {find_topN_matches_rgb_hist calculate target filenames data N}"
  proof (cases "?t = - 1 \<or> \<not> nat ?t < length data")
    case True
    then show ?thesis
      by (auto simp: rgb_hist_outcomes_def find_topN_matches_rgb_hist_def Let_def)
  next
    case False
    show ?thesis
    proof (cases ?sc)
      case (Inl e)
      then show ?thesis using False
        by (simp add: rgb_hist_outcomes_def find_topN_matches_rgb_hist_def Let_def)
    next
      case (Inr ds)
      then show ?thesis using False
        by (simp add: rgb_hist_outcomes_def find_topN_matches_rgb_hist_def Let_def
            std_sort_reversed_unique)
    qed
  qed
  show ?thesis using a b by (simp add: multiHist_is_ssd textureColor_is_ssd)
qed

lemma pair_le_fst: "(p :: 's::linorder \<times> nat) \<le> q \<Longrightarrow> fst p \<le> fst q"
  by (cases p, cases q) auto

lemma pair_le_tie:
  "(p :: 's::linorder \<times> nat) \<le> q \<Longrightarrow> fst p = fst q \<Longrightarrow> snd p \<noteq> snd q \<Longrightarrow> snd p < snd q"
  by (cases p, cases q) auto

lemma ascending_success:
  assumes "R \<in> {find_topN_matches_ssd, find_topN_matches_multiHist,
                find_topN_matches_textureColor}"
    and "R c tgt fs data N = Inr out"
  shows "\<exists>ms. scored_rows c tgt fs data ms \<and> sorted ms
           \<and> out = identifiers fs (take (nat N) ms)"
proof -
  have "R = find_topN_matches_ssd" using assms(1) by (rule ascending_routine_is_ssd)
  from ssd_success[OF assms(2)[unfolded this]]
  obtain t ds where t: "find_target_index tgt fs = int t"
    "score_loop c data (data ! t) t 0 [] = Inr ds"
    "out = identifiers fs (take (nat N) (sort ds))" by blast
  have "scored_rows c tgt fs data (sort ds)"
    using scored_rows_perm[OF _ score_loop_scored_rows(1)[OF t(1) t(2)], of "sort ds"]
    by simp
  then show ?thesis using t(3) by (intro exI[of _ "sort ds"]) simp
qed

lemma descending_success:
  assumes "find_topN_matches_rgb_hist c tgt fs data N = Inr out"
  shows "\<exists>ms. scored_rows c tgt fs data ms \<and> sorted (rev ms)
           \<and> out = identifiers fs (take (nat N) ms)"
proof -
  from rgb_hist_success[OF assms]
  obtain t ds where t: "find_target_index tgt fs = int t"
    "score_loop c data (data ! t) t 0 [] = Inr ds"
    "out = identifiers fs (take (nat N) (rev (sort ds)))" by blast
  have "scored_rows c tgt fs data (rev (sort ds))"
    using scored_rows_perm[OF _ score_loop_scored_rows(1)[OF t(1) t(2)], of "rev (sort ds)"]
    by simp
  then show ?thesis using t(3) by (intro exI[of _ "rev (sort ds)"]) simp
qed

lemma scored_rows_distinct: "scored_rows c tgt fs data ms \<Longrightarrow> distinct (map snd ms)"
proof -
  assume "scored_rows c tgt fs data ms"
  then have m: "mset (map snd ms) =
      mset (filter (\<lambda>j. int j \<noteq> find_target_index tgt fs) [0..<length data])"
    by (simp add: scored_rows_def)
  have "distinct (filter (\<lambda>j. int j \<noteq> find_target_index tgt fs) [0..<length data])"
    by simp
  then show ?thesis using m by (metis mset_eq_imp_distinct_iff)
qed

lemma length_identifiers_take:
  "out = identifiers fs (take (nat N) ms) \<Longrightarrow> length out = min (nat N) (length ms)"
  by (simp add: identifiers_def min.commute)

lemma ascending_pairs:
  assumes "sorted (ms :: ('s::linorder \<times> nat) list)" and "distinct (map snd ms)"
    and "i < j" and "j < length ms"
  shows "fst (ms ! i) \<le> fst (ms ! j)"
    and "fst (ms ! i) = fst (ms ! j) \<Longrightarrow> snd (ms ! i) < snd (ms ! j)"
proof -
  have le: "ms ! i \<le> ms ! j"
    using assms(1,3,4) by (simp add: sorted_iff_nth_mono_less)
  have ne: "snd (ms ! i) \<noteq> snd (ms ! j)"
    using assms(2,3,4) by (simp add: distinct_conv_nth)
  show "fst (ms ! i) \<le> fst (ms ! j)" using le by (rule pair_le_fst)
  show "fst (ms ! i) = fst (ms ! j) \<Longrightarrow> snd (ms ! i) < snd (ms ! j)"
    using pair_le_tie[OF le _ ne] by simp
qed

lemma descending_pairs:
  assumes "sorted (rev (ms :: ('s::linorder \<times> nat) list))" and "distinct (map snd ms)"
    and "i < j" and "j < length ms"
  shows "fst (ms ! j) \<le> fst (ms ! i)"
    and "fst (ms ! i) = fst (ms ! j) \<Longrightarrow> snd (ms ! j) < snd (ms ! i)"
proof -
  have le: "ms ! j \<le> ms ! i"
    using sorted_rev_nth_mono[OF assms(1), of i j] assms(3,4) by simp
  have ne: "snd (ms ! j) \<noteq> snd (ms ! i)"
    using assms(2,3,4) by (simp add: distinct_conv_nth)
  show "fst (ms ! j) \<le> fst (ms ! i)" using le by (rule pair_le_fst)
  show "fst (ms ! i) = fst (ms ! j) \<Longrightarrow> snd (ms ! j) < snd (ms ! i)"
    using pair_le_tie[OF le _ ne] by simp
qed

section \<open>Runs on small datasets\<close>

lemma three_rows_find: "find_target_index ''A'' [''A'', ''B'', ''C''] = int 0"
  by (simp add: find_target_index_def find_target_loop.simps)

text \<open>The scenario of the specification for the sum of squared differences.\<close>

lemma example_ssd:
  "find_topN_matches_ssd sum_of_squared_difference ''A'' [''A'', ''B'', ''C'']
     [[0, 0], [1, 1], [5, 5]] 2 = Inr [''B'', ''C'']"
proof -
  have s: "score_loop sum_of_squared_difference [[0, 0], [1, 1], [5, 5]] [0, 0] 0 0 []
      = Inr [(2, 1), (50, 2)]"
    by (simp add: score_loop.simps sum_of_squared_difference_def)
  have o: "output_loop [''A'', ''B'', ''C''] 2 [(2::real, 1), (50, 2)] 0 []
      = Inr [''B'', ''C'']"
    by (simp add: output_loop.simps)
  show ?thesis
    using ssd_found[OF three_rows_find, of "[[0, 0], [1, 1], [5, 5]]"
        sum_of_squared_difference 2] s o
    by simp
qed

text \<open>The scenario of the specification for the histogram intersection.\<close>

lemma example_rgb_hist:
  "find_topN_matches_rgb_hist histogram_intersection ''A'' [''A'', ''B'', ''C'']
     [[1/2, 1/2], [2/5, 3/5], [1/10, 9/10]] 2 = Inr [''B'', ''C'']"
proof -
  have s: "score_loop histogram_intersection [[1/2, 1/2], [2/5, 3/5], [1/10, 9/10]]
      [1/2, 1/2] 0 0 [] = Inr [(9/10, 1), (3/5, 2)]"
    by (simp add: score_loop.simps histogram_intersection_def)
  have o: "output_loop [''A'', ''B'', ''C''] 2 [(9/10::real, 1), (3/5, 2)] 0 []
      = Inr [''B'', ''C'']"
    by (simp add: output_loop.simps)
  show ?thesis
    using rgb_hist_found[OF three_rows_find, of "[[1/2, 1/2], [2/5, 3/5], [1/10, 9/10]]"
        histogram_intersection 2] s o
    by simp
qed

text \<open>Two rows with the same score, under each of the two sort directions.\<close>

lemma example_tie_ssd:
  "find_topN_matches_ssd sum_of_squared_difference ''A'' [''A'', ''B'', ''C'']
     [[0], [1], [- 1]] 2 = Inr [''B'', ''C'']"
proof -
  have s: "score_loop sum_of_squared_difference [[0], [1], [- 1]] [0] 0 0 []
      = Inr [(1, 1), (1, 2)]"
    by (simp add: score_loop.simps sum_of_squared_difference_def)
  have o: "output_loop [''A'', ''B'', ''C''] 2 [(1::real, 1), (1, 2)] 0 []
      = Inr [''B'', ''C'']"
    by (simp add: output_loop.simps)
  show ?thesis
    using ssd_found[OF three_rows_find, of "[[0], [1], [- 1]]"
        sum_of_squared_difference 2] s o
    by simp
qed

lemma example_tie_rgb_hist:
  "find_topN_matches_rgb_hist histogram_intersection ''A'' [''A'', ''B'', ''C'']
     [[1/2, 1/2], [1/2, 1/2], [1, 1]] 2 = Inr [''C'', ''B'']"
proof -
  have s: "score_loop histogram_intersection [[1/2, 1/2], [1/2, 1/2], [1, 1]]
      [1/2, 1/2] 0 0 [] = Inr [(1, 1), (1, 2)]"
    by (simp add: score_loop.simps histogram_intersection_def)
  have o: "output_loop [''A'', ''B'', ''C''] 2 [(1::real, 2), (1, 1)] 0 []
      = Inr [''C'', ''B'']"
    by (simp add: output_loop.simps)
  show ?thesis
    using rgb_hist_found[OF three_rows_find, of "[[1/2, 1/2], [1/2, 1/2], [1, 1]]"
        histogram_intersection 2] s o
    by simp
qed

section \<open>Order of the result\<close>

text \<open>
  C5. A successful result is read off a list \<open>ms\<close> of the scored rows, entry \<open>i\<close> of
  the result being the filename of row \<open>snd (ms ! i)\<close>, whose score is \<open>fst (ms ! i)\<close>.
  For the routines that sort ascending (sum of squared differences, multi-histogram,
  texture-colour) the scores of adjacent entries of the result never decrease; for the
  histogram-intersection routine they never increase.
\<close>

theorem result_sorted_in_metric_direction:
  "(R \<in> {find_topN_matches_ssd, find_topN_matches_multiHist,
          find_topN_matches_textureColor} \<longrightarrow>
    R calculate target filenames data N = Inr out \<longrightarrow>
    (\<exists>ms. scored_rows calculate target filenames data ms
        \<and> out = identifiers filenames (take (nat N) ms)
        \<and> (\<forall>i. Suc i < length out \<longrightarrow> fst (ms ! i) \<le> fst (ms ! Suc i))))
   \<and> (find_topN_matches_rgb_hist calculate target filenames data N = Inr out \<longrightarrow>
    (\<exists>ms. scored_rows calculate target filenames data ms
        \<and> out = identifiers filenames (take (nat N) ms)
        \<and> (\<forall>i. Suc i < length out \<longrightarrow> fst (ms ! Suc i) \<le> fst (ms ! i))))"
proof (intro conjI impI)
  assume "R \<in> {find_topN_matches_ssd, find_topN_matches_multiHist,
          find_topN_matches_textureColor}"
    and "R calculate target filenames data N = Inr out"
  from ascending_success[where R = R, OF this]
  obtain ms where ms: "scored_rows calculate target filenames data ms" "sorted ms"
    "out = identifiers filenames (take (nat N) ms)" by blast
  have d: "distinct (map snd ms)" using ms(1) by (rule scored_rows_distinct)
  have "fst (ms ! i) \<le> fst (ms ! Suc i)" if "Suc i < length out" for i
  proof -
    have "Suc i < length ms" using that length_identifiers_take[OF ms(3)] by simp
    then show ?thesis using ascending_pairs(1)[OF ms(2) d, of i "Suc i"] by simp
  qed
  then show "\<exists>ms. scored_rows calculate target filenames data ms
        \<and> out = identifiers filenames (take (nat N) ms)
        \<and> (\<forall>i. Suc i < length out \<longrightarrow> fst (ms ! i) \<le> fst (ms ! Suc i))"
    using ms(1,3) by blast
next
  assume "find_topN_matches_rgb_hist calculate target filenames data N = Inr out"
  from descending_success[OF this]
  obtain ms where ms: "scored_rows calculate target filenames data ms" "sorted (rev ms)"
    "out = identifiers filenames (take (nat N) ms)" by blast
  have d: "distinct (map snd ms)" using ms(1) by (rule scored_rows_distinct)
  have "fst (ms ! Suc i) \<le> fst (ms ! i)" if "Suc i < length out" for i
  proof -
    have "Suc i < length ms" using that length_identifiers_take[OF ms(3)] by simp
    then show ?thesis using descending_pairs(1)[OF ms(2) d, of i "Suc i"] by simp
  qed
  then show "\<exists>ms. scored_rows calculate target filenames data ms
        \<and> out = identifiers filenames (take (nat N) ms)
        \<and> (\<forall>i. Suc i < length out \<longrightarrow> fst (ms ! Suc i) \<le> fst (ms ! i))"
    using ms(1,3) by blast
qed

theorem result_sorted_in_metric_direction_witness:
  "find_topN_matches_ssd sum_of_squared_difference ''A'' [''A'', ''B'', ''C'']
     [[0, 0], [1, 1], [5, 5]] 2 = Inr [''B'', ''C'']
   \<and> (\<exists>ms. scored_rows sum_of_squared_difference ''A'' [''A'', ''B'', ''C'']
              [[0, 0], [1, 1], [5, 5]] ms
        \<and> [''B'', ''C''] = identifiers [''A'', ''B'', ''C''] (take (nat 2) ms)
        \<and> (\<forall>i. Suc i < length [''B'', ''C''] \<longrightarrow> fst (ms ! i) \<le> fst (ms ! Suc i)))
   \<and> find_topN_matches_rgb_hist histogram_intersection ''A'' [''A'', ''B'', ''C'']
     [[1/2, 1/2], [2/5, 3/5], [1/10, 9/10]] 2 = Inr [''B'', ''C'']
   \<and> (\<exists>ms. scored_rows histogram_intersection ''A'' [''A'', ''B'', ''C'']
              [[1/2, 1/2], [2/5, 3/5], [1/10, 9/10]] ms
        \<and> [''B'', ''C''] = identifiers [''A'', ''B'', ''C''] (take (nat 2) ms)
        \<and> (\<forall>i. Suc i < length [''B'', ''C''] \<longrightarrow> fst (ms ! Suc i) \<le> fst (ms ! i)))"
proof -
  have m: "find_topN_matches_ssd \<in> {find_topN_matches_ssd, find_topN_matches_multiHist,
      find_topN_matches_textureColor :: (real list, real) metric \<Rightarrow> _}"
    by simp
  note a = result_sorted_in_metric_direction[where R = find_topN_matches_ssd
      and calculate = sum_of_squared_difference and target = "''A''"
      and filenames = "[''A'', ''B'', ''C'']" and data = "[[0, 0], [1, 1], [5, 5]]"
      and N = 2 and out = "[''B'', ''C'']", THEN conjunct1, rule_format, OF m example_ssd]
  note b = result_sorted_in_metric_direction[where R = find_topN_matches_ssd
      and calculate = histogram_intersection and target = "''A''"
      and filenames = "[''A'', ''B'', ''C'']"
      and data = "[[1/2, 1/2], [2/5, 3/5], [1/10, 9/10]]"
      and N = 2 and out = "[''B'', ''C'']", THEN conjunct2, rule_format,
      OF example_rgb_hist]
  show ?thesis using example_ssd example_rgb_hist a b by blast
qed

text \<open>
  C2 (as amended). With \<open>ms\<close> as above: when two entries of the result have equal
  scores, a routine that sorts ascending lists them by increasing row index, which is
  their order in the dataset; the histogram-intersection routine, which sorts the
  pairs in reverse, lists them by decreasing row index, the reverse of their order in
  the dataset.
\<close>

theorem ties_follow_the_sort_direction:
  "(R \<in> {find_topN_matches_ssd, find_topN_matches_multiHist,
          find_topN_matches_textureColor} \<longrightarrow>
    R calculate target filenames data N = Inr out \<longrightarrow>
    (\<exists>ms. scored_rows calculate target filenames data ms
        \<and> out = identifiers filenames (take (nat N) ms)
        \<and> (\<forall>i j. i < j \<and> j < length out \<and> fst (ms ! i) = fst (ms ! j)
              \<longrightarrow> snd (ms ! i) < snd (ms ! j))))
   \<and> (find_topN_matches_rgb_hist calculate target filenames data N = Inr out \<longrightarrow>
    (\<exists>ms. scored_rows calculate target filenames data ms
        \<and> out = identifiers filenames (take (nat N) ms)
        \<and> (\<forall>i j. i < j \<and> j < length out \<and> fst (ms ! i) = fst (ms ! j)
              \<longrightarrow> snd (ms ! j) < snd (ms ! i))))"
proof (intro conjI impI)
  assume "R \<in> {find_topN_matches_ssd, find_topN_matches_multiHist,
          find_topN_matches_textureColor}"
    and "R calculate target filenames data N = Inr out"
  from ascending_success[where R = R, OF this]
  obtain ms where ms: "scored_rows calculate target filenames data ms" "sorted ms"
    "out = identifiers filenames (take (nat N) ms)" by blast
  have d: "distinct (map snd ms)" using ms(1) by (rule scored_rows_distinct)
  have "snd (ms ! i) < snd (ms ! j)"
    if "i < j \<and> j < length out \<and> fst (ms ! i) = fst (ms ! j)" for i j
  proof -
    have "j < length ms" using that length_identifiers_take[OF ms(3)] by simp
    then show ?thesis using ascending_pairs(2)[OF ms(2) d, of i j] that by simp
  qed
  then show "\<exists>ms. scored_rows calculate target filenames data ms
        \<and> out = identifiers filenames (take (nat N) ms)
        \<and> (\<forall>i j. i < j \<and> j < length out \<and> fst (ms ! i) = fst (ms ! j)
              \<longrightarrow> snd (ms ! i) < snd (ms ! j))"
    using ms(1,3) by blast
next
  assume "find_topN_matches_rgb_hist calculate target filenames data N = Inr out"
  from descending_success[OF this]
  obtain ms where ms: "scored_rows calculate target filenames data ms" "sorted (rev ms)"
    "out = identifiers filenames (take (nat N) ms)" by blast
  have d: "distinct (map snd ms)" using ms(1) by (rule scored_rows_distinct)
  have "snd (ms ! j) < snd (ms ! i)"
    if "i < j \<and> j < length out \<and> fst (ms ! i) = fst (ms ! j)" for i j
  proof -
    have "j < length ms" using that length_identifiers_take[OF ms(3)] by simp
    then show ?thesis using descending_pairs(2)[OF ms(2) d, of i j] that by simp
  qed
  then show "\<exists>ms. scored_rows calculate target filenames data ms
        \<and> out = identifiers filenames (take (nat N) ms)
        \<and> (\<forall>i j. i < j \<and> j < length out \<and> fst (ms ! i) = fst (ms ! j)
              \<longrightarrow> snd (ms ! j) < snd (ms ! i))"
    using ms(1,3) by blast
qed

theorem ties_follow_the_sort_direction_witness:
  "find_topN_matches_ssd sum_of_squared_difference ''A'' [''A'', ''B'', ''C'']
     [[0], [1], [- 1]] 2 = Inr [''B'', ''C'']
   \<and> (\<exists>ms. scored_rows sum_of_squared_difference ''A'' [''A'', ''B'', ''C'']
              [[0], [1], [- 1]] ms
        \<and> [''B'', ''C''] = identifiers [''A'', ''B'', ''C''] (take (nat 2) ms)
        \<and> (\<forall>i j. i < j \<and> j < length [''B'', ''C''] \<and> fst (ms ! i) = fst (ms ! j)
              \<longrightarrow> snd (ms ! i) < snd (ms ! j)))
   \<and> find_topN_matches_rgb_hist histogram_intersection ''A'' [''A'', ''B'', ''C'']
     [[1/2, 1/2], [1/2, 1/2], [1, 1]] 2 = Inr [''C'', ''B'']
   \<and> (\<exists>ms. scored_rows histogram_intersection ''A'' [''A'', ''B'', ''C'']
              [[1/2, 1/2], [1/2, 1/2], [1, 1]] ms
        \<and> [''C'', ''B''] = identifiers [''A'', ''B'', ''C''] (take (nat 2) ms)
        \<and> (\<forall>i j. i < j \<and> j < length [''C'', ''B''] \<and> fst (ms ! i) = fst (ms ! j)
              \<longrightarrow> snd (ms ! j) < snd (ms ! i)))"
proof -
  have m: "find_topN_matches_ssd \<in> {find_topN_matches_ssd, find_topN_matches_multiHist,
      find_topN_matches_textureColor :: (real list, real) metric \<Rightarrow> _}"
    by simp
  note a = ties_follow_the_sort_direction[where R = find_topN_matches_ssd
      and calculate = sum_of_squared_difference and target = "''A''"
      and filenames = "[''A'', ''B'', ''C'']" and data = "[[0], [1], [- 1]]"
      and N = 2 and out = "[''B'', ''C'']", THEN conjunct1, rule_format,
      OF m example_tie_ssd]
  note b = ties_follow_the_sort_direction[where R = find_topN_matches_ssd
      and calculate = histogram_intersection and target = "''A''"
      and filenames = "[''A'', ''B'', ''C'']"
      and data = "[[1/2, 1/2], [1/2, 1/2], [1, 1]]"
      and N = 2 and out = "[''C'', ''B'']", THEN conjunct2, rule_format,
      OF example_tie_rgb_hist]
  show ?thesis using example_tie_ssd example_tie_rgb_hist a b by blast
qed

text \<open>
  C2 as stated fails for the histogram-intersection routine: rows \<open>B\<close> and \<open>C\<close> score
  the same against \<open>A\<close>, \<open>B\<close> comes first in the dataset, and the result lists \<open>C\<close>
  first.
\<close>

theorem tie_order_counterexample:
  "histogram_intersection [1/2, 1/2] [1/2, 1/2] = Inr 1
   \<and> histogram_intersection [1, 1] [1/2, 1/2] = Inr 1
   \<and> find_topN_matches_rgb_hist histogram_intersection ''A'' [''A'', ''B'', ''C'']
        [[1/2, 1/2], [1/2, 1/2], [1, 1]] 2 = Inr [''C'', ''B'']"
  using example_tie_rgb_hist by (simp add: histogram_intersection_def)

section \<open>Which rows are scored\<close>

lemma duplicate_rows_find: "find_target_index ''A'' [''A'', ''A''] = int 0"
  by (simp add: find_target_index_def find_target_loop.simps)

lemma example_duplicate:
  "find_topN_matches_ssd sum_of_squared_difference ''A'' [''A'', ''A''] [[0], [1]] 1
     = Inr [''A'']"
proof -
  have s: "score_loop sum_of_squared_difference [[0], [1]] [0] 0 0 [] = Inr [(1, 1)]"
    by (simp add: score_loop.simps sum_of_squared_difference_def)
  have o: "output_loop [''A'', ''A''] 1 [(1::real, 1)] 0 [] = Inr [''A'']"
    by (simp add: output_loop.simps)
  show ?thesis
    using ssd_found[OF duplicate_rows_find, of "[[0], [1]]" sum_of_squared_difference 1]
      s o
    by simp
qed

lemma identifiers_avoid:
  assumes "\<forall>m \<in> set ms. snd m < length fs \<and> fs ! snd m \<noteq> tgt"
  shows "tgt \<notin> set (identifiers fs ms)"
  using assms by (auto simp: identifiers_def)

text \<open>
  C4 (as amended). On success, a routine has found the first row \<open>t\<close> whose filename
  is the query, has scored every row of the dataset with an index other than \<open>t\<close> and
  only those (the row is left out by its index), and reads the result off their pairs.
  When no other row bears the query's filename, that filename is not in the result.
\<close>

theorem query_row_excluded_by_index:
  assumes "R \<in> {find_topN_matches_ssd, find_topN_matches_rgb_hist,
                find_topN_matches_multiHist, find_topN_matches_textureColor}"
    and "R calculate target filenames data N = Inr out"
  shows "\<exists>t ms. find_target_index target filenames = int t \<and> t < length filenames
           \<and> filenames ! t = target \<and> (\<forall>j<t. filenames ! j \<noteq> target)
           \<and> scored_rows calculate target filenames data ms
           \<and> snd ` set ms = {j. j < length data \<and> j \<noteq> t}
           \<and> out = identifiers filenames (take (nat N) ms)
           \<and> ((\<forall>j<length filenames. j \<noteq> t \<longrightarrow> filenames ! j \<noteq> target)
                \<longrightarrow> target \<notin> set out)"
proof -
  from any_routine_success[where R = R, OF assms]
  obtain t ms where t: "find_target_index target filenames = int t" "t < length filenames"
    "filenames ! t = target" "\<forall>j<t. filenames ! j \<noteq> target" "t < length data"
    "scored_rows calculate target filenames data ms"
    "out = identifiers filenames (take (nat N) ms)"
    "\<forall>m \<in> set (take (nat N) ms). snd m < length filenames" by blast
  have ix: "snd ` set ms = {j. j < length data \<and> j \<noteq> t}"
    using scored_rows_indices(1)[OF t(6) t(1)] .
  have "target \<notin> set out"
    if u: "\<forall>j<length filenames. j \<noteq> t \<longrightarrow> filenames ! j \<noteq> target"
  proof -
    have "\<forall>m \<in> set (take (nat N) ms). snd m < length filenames
        \<and> filenames ! snd m \<noteq> target"
    proof
      fix m assume m: "m \<in> set (take (nat N) ms)"
      then have "m \<in> set ms" by (rule in_set_takeD)
      then have "snd m \<in> {j. j < length data \<and> j \<noteq> t}" using ix by blast
      then have "snd m \<noteq> t" by simp
      moreover have "snd m < length filenames" using t(8) m by blast
      ultimately show "snd m < length filenames \<and> filenames ! snd m \<noteq> target"
        using u by blast
    qed
    from identifiers_avoid[OF this] show ?thesis using t(7) by simp
  qed
  then show ?thesis using t(1-4,6,7) ix by blast
qed

theorem query_row_excluded_by_index_witness:
  "find_topN_matches_ssd sum_of_squared_difference ''A'' [''A'', ''B'', ''C'']
     [[0, 0], [1, 1], [5, 5]] 2 = Inr [''B'', ''C'']
   \<and> (\<exists>t ms. find_target_index ''A'' [''A'', ''B'', ''C''] = int t
         \<and> t < length [''A'', ''B'', ''C''] \<and> [''A'', ''B'', ''C''] ! t = ''A''
         \<and> (\<forall>j<t. [''A'', ''B'', ''C''] ! j \<noteq> ''A'')
         \<and> scored_rows sum_of_squared_difference ''A'' [''A'', ''B'', ''C'']
               [[0, 0], [1, 1], [5, 5]] ms
         \<and> snd ` set ms = {j. j < length [[0, 0], [1, 1], [5, 5::real]] \<and> j \<noteq> t}
         \<and> [''B'', ''C''] = identifiers [''A'', ''B'', ''C''] (take (nat 2) ms)
         \<and> ((\<forall>j<length [''A'', ''B'', ''C'']. j \<noteq> t \<longrightarrow> [''A'', ''B'', ''C''] ! j \<noteq> ''A'')
              \<longrightarrow> ''A'' \<notin> set [''B'', ''C'']))"
proof -
  have m: "find_topN_matches_ssd \<in> {find_topN_matches_ssd, find_topN_matches_rgb_hist,
      find_topN_matches_multiHist,
      find_topN_matches_textureColor :: (real list, real) metric \<Rightarrow> _}"
    by simp
  note r = query_row_excluded_by_index[where R = find_topN_matches_ssd, OF m example_ssd]
  show ?thesis by (rule conjI[OF example_ssd r])
qed

text \<open>
  C4 as stated fails: with two rows named \<open>A\<close>, the query \<open>A\<close> gets \<open>A\<close> back.
\<close>

theorem query_identifier_in_result_counterexample:
  "''A'' \<in> set [''A'', ''A'']
   \<and> find_topN_matches_ssd sum_of_squared_difference ''A'' [''A'', ''A''] [[0], [1]] 1
       = Inr [''A'']"
  using example_duplicate by simp

text \<open>
  C10. Let row \<open>j\<close> bear the query's filename without being the row the search
  returns. Then the search returned an earlier row, the first one with that filename,
  and it is the only row left out: row \<open>j\<close> is among the scored rows, and when \<open>N\<close> is
  at least the number of scored rows the query's filename is in the result.
\<close>

theorem later_duplicates_are_scored:
  assumes "R \<in> {find_topN_matches_ssd, find_topN_matches_rgb_hist,
                find_topN_matches_multiHist, find_topN_matches_textureColor}"
    and "R calculate target filenames data N = Inr out"
    and "j < length data" and "filenames ! j = target"
    and "int j \<noteq> find_target_index target filenames"
  shows "find_target_index target filenames < int j
         \<and> filenames ! nat (find_target_index target filenames) = target
         \<and> (\<exists>ms. scored_rows calculate target filenames data ms
               \<and> snd ` set ms =
                   {k. k < length data \<and> int k \<noteq> find_target_index target filenames}
               \<and> j \<in> snd ` set ms
               \<and> out = identifiers filenames (take (nat N) ms)
               \<and> (int (length data) - 1 \<le> N \<longrightarrow> target \<in> set out))"
proof -
  from any_routine_success[where R = R, OF assms(1,2)]
  obtain t ms where t: "find_target_index target filenames = int t" "t < length filenames"
    "filenames ! t = target" "\<forall>j<t. filenames ! j \<noteq> target" "t < length data"
    "scored_rows calculate target filenames data ms"
    "out = identifiers filenames (take (nat N) ms)" by blast
  have ne: "j \<noteq> t" using assms(5) t(1) by simp
  have "\<not> j < t" using t(4) assms(4) by blast
  then have lt: "t < j" using ne by simp
  have ix: "snd ` set ms = {k. k < length data \<and> k \<noteq> t}"
    using scored_rows_indices(1)[OF t(6) t(1)] .
  have jin: "j \<in> snd ` set ms" using ix assms(3) ne by simp
  have "target \<in> set out" if n: "int (length data) - 1 \<le> N"
  proof -
    have "length ms = length data - 1" using scored_rows_length[OF t(6) t(1) t(5)] .
    then have "length ms \<le> nat N" using n by simp
    then have "out = identifiers filenames ms" using t(7) by simp
    moreover obtain m where "m \<in> set ms" "snd m = j" using jin by auto
    ultimately have "filenames ! j \<in> set out" by (auto simp: identifiers_def)
    then show ?thesis using assms(4) by simp
  qed
  then show ?thesis using t(1,3,6,7) lt ix jin by auto
qed

theorem later_duplicates_are_scored_witness:
  "find_topN_matches_ssd sum_of_squared_difference ''A'' [''A'', ''A''] [[0], [1]] 1
     = Inr [''A'']
   \<and> ((1::nat) < length [[0], [1::real]] \<and> [''A'', ''A''] ! 1 = ''A''
      \<and> int 1 \<noteq> find_target_index ''A'' [''A'', ''A''])
   \<and> (find_target_index ''A'' [''A'', ''A''] < int 1
      \<and> [''A'', ''A''] ! nat (find_target_index ''A'' [''A'', ''A'']) = ''A''
      \<and> (\<exists>ms. scored_rows sum_of_squared_difference ''A'' [''A'', ''A''] [[0], [1]] ms
            \<and> snd ` set ms =
                {k. k < length [[0], [1::real]]
                    \<and> int k \<noteq> find_target_index ''A'' [''A'', ''A'']}
            \<and> 1 \<in> snd ` set ms
            \<and> [''A''] = identifiers [''A'', ''A''] (take (nat 1) ms)
            \<and> (int (length [[0], [1::real]]) - 1 \<le> 1 \<longrightarrow> ''A'' \<in> set [''A''])))"
proof -
  have m: "find_topN_matches_ssd \<in> {find_topN_matches_ssd, find_topN_matches_rgb_hist,
      find_topN_matches_multiHist,
      find_topN_matches_textureColor :: (real list, real) metric \<Rightarrow> _}"
    by simp
  have j1: "(1::nat) < length [[0], [1::real]]" by simp
  have j2: "[''A'', ''A''] ! 1 = ''A''" by simp
  have j3: "int 1 \<noteq> find_target_index ''A'' [''A'', ''A'']"
    by (simp add: duplicate_rows_find)
  note r = later_duplicates_are_scored[where R = find_topN_matches_ssd,
      OF m example_duplicate j1 j2 j3]
  have j: "(1::nat) < length [[0], [1::real]] \<and> [''A'', ''A''] ! 1 = ''A''
      \<and> int 1 \<noteq> find_target_index ''A'' [''A'', ''A'']"
    using j1 j2 j3 by (intro conjI)
  show ?thesis by (rule conjI[OF example_duplicate conjI[OF j r]])
qed

section \<open>Truncation\<close>

lemma score_loop_total:
  assumes "\<forall>j<length data. j \<noteq> t \<longrightarrow> (\<exists>s. c (data ! j) tv = Inr s)"
  shows "\<exists>ds. score_loop c data tv t i acc = Inr ds"
proof (cases "score_loop c data tv t i acc")
  case (Inl e)
  from score_loop_Inl[OF this]
  obtain j where "j < length data" "j \<noteq> t" "c (data ! j) tv = Inl e" by blast
  then show ?thesis using assms by fastforce
next
  case (Inr ds)
  then show ?thesis by blast
qed

lemma single_row_find: "find_target_index ''A'' [''A''] = int 0"
  by (simp add: find_target_index_def find_target_loop.simps)

lemma unordered_rows_find: "find_target_index ''A'' [''A'', ''C'', ''B''] = int 0"
  by (simp add: find_target_index_def find_target_loop.simps)

text \<open>A dataset whose rows are not in the order of their scores.\<close>

lemma example_unordered_ssd:
  "find_topN_matches_ssd sum_of_squared_difference ''A'' [''A'', ''C'', ''B'']
     [[0, 0], [5, 5], [1, 1]] 1 = Inr [''B'']"
proof -
  have s: "score_loop sum_of_squared_difference [[0, 0], [5, 5], [1, 1]] [0, 0] 0 0 []
      = Inr [(50, 1), (2, 2)]"
    by (simp add: score_loop.simps sum_of_squared_difference_def)
  have o: "output_loop [''A'', ''C'', ''B''] 1 [(2::real, 2), (50, 1)] 0 [] = Inr [''B'']"
    by (simp add: output_loop.simps)
  show ?thesis
    using ssd_found[OF unordered_rows_find, of "[[0, 0], [5, 5], [1, 1]]"
        sum_of_squared_difference 1] s o
    by simp
qed

lemma routine_of_direction:
  assumes "(R, descending) \<in> {(find_topN_matches_ssd, False), (find_topN_matches_rgb_hist, True),
                 (find_topN_matches_multiHist, False),
                 (find_topN_matches_textureColor, False)}"
  shows "R \<in> {find_topN_matches_ssd, find_topN_matches_rgb_hist,
              find_topN_matches_multiHist, find_topN_matches_textureColor}"
    and "descending \<Longrightarrow> R = find_topN_matches_rgb_hist"
    and "\<not> descending \<Longrightarrow> R = find_topN_matches_ssd"
  using assms by (auto simp: multiHist_is_ssd textureColor_is_ssd)

lemma scored_rows_pairs:
  assumes "scored_rows c tgt fs data ms"
  shows "ms = map (\<lambda>j. (projr (c (data ! j) (data ! nat (find_target_index tgt fs))), j))
                  (map snd ms)"
proof -
  have "\<forall>m \<in> set ms.
      (projr (c (data ! snd m) (data ! nat (find_target_index tgt fs))), snd m) = m"
    using assms by (simp add: scored_rows_def)
  then have "map (\<lambda>m. (projr (c (data ! snd m) (data ! nat (find_target_index tgt fs))),
      snd m)) ms = ms"
    by (intro map_idI) simp
  then show ?thesis by (simp add: comp_def)
qed

text \<open>The scored rows have one ranking in each direction.\<close>

lemma ranking_unique:
  assumes "scored_rows c tgt fs data ms" and "scored_rows c tgt fs data ms'"
    and "if descending then sorted (rev ms) else sorted ms"
    and "if descending then sorted (rev ms') else sorted ms'"
  shows "ms = ms'"
proof -
  let ?f = "\<lambda>j. (projr (c (data ! j) (data ! nat (find_target_index tgt fs))), j)"
  have "mset (map snd ms) = mset (map snd ms')"
    using assms(1,2) by (simp add: scored_rows_def)
  then have "mset (map ?f (map snd ms)) = mset (map ?f (map snd ms'))"
    by (metis mset_map)
  then have p: "mset ms = mset ms'"
    by (subst scored_rows_pairs[OF assms(1)], subst scored_rows_pairs[OF assms(2)])
  show ?thesis
  proof (cases descending)
    case True
    have "mset (rev ms) = mset (rev ms')" using p by simp
    from properties_for_sort[OF this] assms(3,4) True
    have "sort (rev ms') = rev ms" by simp
    moreover have "sort (rev ms') = rev ms'"
      using properties_for_sort[OF refl, of "rev ms'"] assms(4) True by simp
    ultimately show ?thesis by simp
  next
    case False
    from properties_for_sort[OF p] assms(3) False have "sort ms' = ms" by simp
    moreover have "sort ms' = ms'"
      using properties_for_sort[OF refl, of ms'] assms(4) False by simp
    ultimately show ?thesis by simp
  qed
qed

lemma success_in_order:
  assumes "(R, descending) \<in> {(find_topN_matches_ssd, False), (find_topN_matches_rgb_hist, True),
                 (find_topN_matches_multiHist, False),
                 (find_topN_matches_textureColor, False)}"
    and "R calculate target filenames data N = Inr out"
  shows "\<exists>ms. scored_rows calculate target filenames data ms
           \<and> (if descending then sorted (rev ms) else sorted ms)
           \<and> length ms = length data - 1
           \<and> out = identifiers filenames (take (nat N) ms)
           \<and> length out = min (nat N) (length data - 1)"
proof -
  note r = routine_of_direction[OF assms(1)]
  from any_routine_success[where R = R, OF r(1) assms(2)]
  obtain t where t: "find_target_index target filenames = int t" "t < length data"
    by blast
  have "\<exists>ms. scored_rows calculate target filenames data ms
      \<and> (if descending then sorted (rev ms) else sorted ms)
      \<and> out = identifiers filenames (take (nat N) ms)"
  proof (cases descending)
    case True
    then have "find_topN_matches_rgb_hist calculate target filenames data N = Inr out"
      using r(2) assms(2) by simp
    from descending_success[OF this] show ?thesis using True by simp
  next
    case False
    then have "find_topN_matches_ssd calculate target filenames data N = Inr out"
      using r(3) assms(2) by simp
    from ssd_success[OF this]
    obtain t' ds where d: "find_target_index target filenames = int t'"
      "score_loop calculate data (data ! t') t' 0 [] = Inr ds"
      "out = identifiers filenames (take (nat N) (sort ds))" by blast
    have "scored_rows calculate target filenames data (sort ds)"
      using scored_rows_perm[OF _ score_loop_scored_rows(1)[OF d(1) d(2)], of "sort ds"]
      by simp
    then show ?thesis using d(3) False by (intro exI[of _ "sort ds"]) simp
  qed
  then obtain ms where ms: "scored_rows calculate target filenames data ms"
    "if descending then sorted (rev ms) else sorted ms"
    "out = identifiers filenames (take (nat N) ms)" by blast
  have len: "length ms = length data - 1"
    using scored_rows_length[OF ms(1) t(1) t(2)] .
  have "length out = min (nat N) (length data - 1)"
    using length_identifiers_take[OF ms(3)] len by simp
  then show ?thesis using ms len by blast
qed

lemma success_for_every_N:
  assumes "(R, descending) \<in> {(find_topN_matches_ssd, False), (find_topN_matches_rgb_hist, True),
                 (find_topN_matches_multiHist, False),
                 (find_topN_matches_textureColor, False)}"
    and "length filenames = length data"
    and "target \<in> set filenames"
    and "\<forall>j<length data. int j \<noteq> find_target_index target filenames \<longrightarrow>
           (\<exists>s. calculate (data ! j)
                  (data ! nat (find_target_index target filenames)) = Inr s)"
  shows "\<exists>ms. scored_rows calculate target filenames data ms
           \<and> (if descending then sorted (rev ms) else sorted ms)
           \<and> length ms = length data - 1
           \<and> (\<forall>N. R calculate target filenames data N
                      = Inr (identifiers filenames (take (nat N) ms))
                  \<and> length (identifiers filenames (take (nat N) ms))
                      = min (nat N) (length data - 1))
           \<and> (length data = 1 \<longrightarrow>
                (\<forall>N. R calculate target filenames data N = Inr []))"
proof -
  note r = routine_of_direction[OF assms(1)]
  from find_target_index_cases[of target filenames] assms(3)
  obtain t where t: "find_target_index target filenames = int t" "t < length filenames"
    by auto
  have td: "t < length data" using t(2) assms(2) by simp
  have "\<forall>j<length data. j \<noteq> t \<longrightarrow> (\<exists>s. calculate (data ! j) (data ! t) = Inr s)"
    using assms(4) t(1) by simp
  from score_loop_total[where c = calculate and data = data and t = t
      and tv = "data ! t" and i = 0 and acc = "[]", OF this]
  obtain ds where ds: "score_loop calculate data (data ! t) t 0 [] = Inr ds" by blast
  note sr = score_loop_scored_rows[OF t(1) ds]
  define ms where "ms = (if descending then rev (sort ds) else sort ds)"
  have ord: "if descending then sorted (rev ms) else sorted ms" by (simp add: ms_def)
  have p: "mset ms = mset ds" by (simp add: ms_def)
  have srm: "scored_rows calculate target filenames data ms"
    using scored_rows_perm[OF p sr(1)] .
  have len: "length ms = length data - 1"
    using scored_rows_length[OF srm t(1) td] .
  have "snd ` set ms = {j. j < length data \<and> j \<noteq> t}"
    using scored_rows_indices(1)[OF srm t(1)] .
  then have bound: "\<forall>m \<in> set ms. snd m < length filenames"
    using assms(2) by auto
  have run: "R calculate target filenames data N = output_loop filenames N ms 0 []" for N
  proof (cases descending)
    case True
    then show ?thesis
      using rgb_hist_found[OF t(1) td, of calculate N] ds r(2) by (simp add: ms_def)
  next
    case False
    then show ?thesis
      using ssd_found[OF t(1) td, of calculate N] ds r(3) by (simp add: ms_def)
  qed
  have res: "R calculate target filenames data N
      = Inr (identifiers filenames (take (nat N) ms))" for N
    using run[of N] output_loop_ok[OF bound, of N 0 "[]"]
    by (simp add: identifiers_def)
  have cnt: "length (identifiers filenames (take (nat N) ms))
      = min (nat N) (length data - 1)" for N
    using length_identifiers_take[OF refl, of filenames N ms] len by simp
  have one: "R calculate target filenames data N = Inr []" if "length data = 1" for N
  proof -
    have "ms = []" using len that by simp
    then show ?thesis using res[of N] by (simp add: identifiers_def)
  qed
  show ?thesis using srm ord len res cnt one by blast
qed

text \<open>
  C6. Let \<open>descending\<close> tell the direction of a routine: false for the three routines
  that sort ascending, true for the histogram-intersection routine. The ranking of a
  call is the list \<open>ms\<close> of the pairs (score, row index) of the \<open>length data - 1\<close> scored
  rows in the routine's order, that is sorted ascending, or sorted descending when
  \<open>descending\<close> holds; there is only one such list. A successful result is the
  identifiers of the first \<open>N\<close> entries of the ranking, or of all of them when \<open>N\<close> is
  larger: it has \<open>min N (length data - 1)\<close> entries. Moreover, when the dataset has as
  many filenames as rows, the query is among the filenames and the distance function
  returns a score for every other row, a routine succeeds for every \<open>N\<close>, and when
  the query's row is the only row the result is empty.
\<close>

theorem result_is_first_N_of_ranking:
  assumes "(R, descending) \<in> {(find_topN_matches_ssd, False), (find_topN_matches_rgb_hist, True),
                 (find_topN_matches_multiHist, False),
                 (find_topN_matches_textureColor, False)}"
  shows "(R calculate target filenames data N = Inr out \<longrightarrow>
           (\<exists>ms. scored_rows calculate target filenames data ms
               \<and> (if descending then sorted (rev ms) else sorted ms)
               \<and> length ms = length data - 1
               \<and> out = identifiers filenames (take (nat N) ms)
               \<and> length out = min (nat N) (length data - 1)))
         \<and> (length filenames = length data \<and> target \<in> set filenames
             \<and> (\<forall>j<length data. int j \<noteq> find_target_index target filenames \<longrightarrow>
                   (\<exists>s. calculate (data ! j)
                          (data ! nat (find_target_index target filenames)) = Inr s))
            \<longrightarrow>
           (\<exists>ms. scored_rows calculate target filenames data ms
               \<and> (if descending then sorted (rev ms) else sorted ms)
               \<and> length ms = length data - 1
               \<and> (\<forall>N. R calculate target filenames data N
                          = Inr (identifiers filenames (take (nat N) ms))
                      \<and> length (identifiers filenames (take (nat N) ms))
                          = min (nat N) (length data - 1))
               \<and> (length data = 1 \<longrightarrow>
                    (\<forall>N. R calculate target filenames data N = Inr []))))"
proof (intro conjI impI)
  assume "R calculate target filenames data N = Inr out"
  then show "\<exists>ms. scored_rows calculate target filenames data ms
               \<and> (if descending then sorted (rev ms) else sorted ms)
               \<and> length ms = length data - 1
               \<and> out = identifiers filenames (take (nat N) ms)
               \<and> length out = min (nat N) (length data - 1)"
    by (rule success_in_order[where R = R and calculate = calculate, OF assms])
next
  assume h: "length filenames = length data \<and> target \<in> set filenames
             \<and> (\<forall>j<length data. int j \<noteq> find_target_index target filenames \<longrightarrow>
                   (\<exists>s. calculate (data ! j)
                          (data ! nat (find_target_index target filenames)) = Inr s))"
  show "\<exists>ms. scored_rows calculate target filenames data ms
               \<and> (if descending then sorted (rev ms) else sorted ms)
               \<and> length ms = length data - 1
               \<and> (\<forall>N. R calculate target filenames data N
                          = Inr (identifiers filenames (take (nat N) ms))
                      \<and> length (identifiers filenames (take (nat N) ms))
                          = min (nat N) (length data - 1))
               \<and> (length data = 1 \<longrightarrow>
                    (\<forall>N. R calculate target filenames data N = Inr []))"
    by (rule success_for_every_N[where R = R and calculate = calculate, OF assms
          h[THEN conjunct1]
          h[THEN conjunct2, THEN conjunct1] h[THEN conjunct2, THEN conjunct2]])
qed

theorem result_is_first_N_of_ranking_witness:
  "(length [''A'', ''C'', ''B''] = length [[0, 0], [5, 5], [1, 1::real]]
    \<and> ''A'' \<in> set [''A'', ''C'', ''B''])
   \<and> find_topN_matches_ssd sum_of_squared_difference ''A'' [''A'', ''C'', ''B'']
        [[0, 0], [5, 5], [1, 1]] 1 = Inr [''B'']
   \<and> (\<exists>ms. scored_rows sum_of_squared_difference ''A'' [''A'', ''C'', ''B'']
              [[0, 0], [5, 5], [1, 1]] ms
         \<and> sorted ms
         \<and> length ms = length [[0, 0], [5, 5], [1, 1::real]] - 1
         \<and> [''B''] = identifiers [''A'', ''C'', ''B''] (take (nat 1) ms)
         \<and> length [''B''] = min (nat 1) (length [[0, 0], [5, 5], [1, 1::real]] - 1))
   \<and> (\<exists>ms. scored_rows sum_of_squared_difference ''A'' [''A'', ''C'', ''B'']
              [[0, 0], [5, 5], [1, 1]] ms
         \<and> sorted ms
         \<and> length ms = length [[0, 0], [5, 5], [1, 1::real]] - 1
         \<and> (\<forall>N. find_topN_matches_ssd sum_of_squared_difference ''A''
                    [''A'', ''C'', ''B''] [[0, 0], [5, 5], [1, 1]] N
                  = Inr (identifiers [''A'', ''C'', ''B''] (take (nat N) ms))
                \<and> length (identifiers [''A'', ''C'', ''B''] (take (nat N) ms))
                  = min (nat N) (length [[0, 0], [5, 5], [1, 1::real]] - 1))
         \<and> (length [[0, 0], [5, 5], [1, 1::real]] = 1 \<longrightarrow>
              (\<forall>N. find_topN_matches_ssd sum_of_squared_difference ''A''
                    [''A'', ''C'', ''B''] [[0, 0], [5, 5], [1, 1]] N = Inr [])))
   \<and> find_topN_matches_ssd sum_of_squared_difference ''A'' [''A''] [[0]] 3 = Inr []
   \<and> (\<exists>ms. scored_rows histogram_intersection ''A'' [''A'', ''B'', ''C'']
              [[1/2, 1/2], [2/5, 3/5], [1/10, 9/10]] ms
         \<and> sorted (rev ms)
         \<and> length ms = length [[1/2, 1/2], [2/5, 3/5], [1/10, 9/10::real]] - 1
         \<and> [''B'', ''C''] = identifiers [''A'', ''B'', ''C''] (take (nat 2) ms)
         \<and> length [''B'', ''C'']
             = min (nat 2) (length [[1/2, 1/2], [2/5, 3/5], [1/10, 9/10::real]] - 1))"
proof -
  let ?fs = "[''A'', ''C'', ''B'']"
  let ?data = "[[0, 0], [5, 5], [1, 1::real]]"
  have m: "(find_topN_matches_ssd :: (real list, real) metric \<Rightarrow> _, False)
      \<in> {(find_topN_matches_ssd, False), (find_topN_matches_rgb_hist, True),
          (find_topN_matches_multiHist, False), (find_topN_matches_textureColor, False)}"
    by simp
  have md: "(find_topN_matches_rgb_hist :: (real list, real) metric \<Rightarrow> _, True)
      \<in> {(find_topN_matches_ssd, False), (find_topN_matches_rgb_hist, True),
          (find_topN_matches_multiHist, False), (find_topN_matches_textureColor, False)}"
    by simp
  have h: "length ?fs = length ?data \<and> ''A'' \<in> set ?fs" by simp
  have sc: "\<forall>j<length ?data. int j \<noteq> find_target_index ''A'' ?fs \<longrightarrow>
      (\<exists>s. sum_of_squared_difference (?data ! j)
             (?data ! nat (find_target_index ''A'' ?fs)) = Inr s)"
    by (simp add: unordered_rows_find sum_of_squared_difference_def numeral_3_eq_3
        less_Suc_eq nth_Cons')
  have hs: "length ?fs = length ?data \<and> ''A'' \<in> set ?fs
      \<and> (\<forall>j<length ?data. int j \<noteq> find_target_index ''A'' ?fs \<longrightarrow>
      (\<exists>s. sum_of_squared_difference (?data ! j)
             (?data ! nat (find_target_index ''A'' ?fs)) = Inr s))"
    using h sc by (intro conjI) simp_all
  note inst = result_is_first_N_of_ranking[where R = find_topN_matches_ssd
      and descending = False and calculate = sum_of_squared_difference
      and target = "''A''", OF m, unfolded if_False]
  note first = inst[where filenames = ?fs and data = ?data and N = 1
      and out = "[''B'']", THEN conjunct1, rule_format, OF example_unordered_ssd]
  note every = inst[where filenames = ?fs and data = ?data, THEN conjunct2,
      rule_format, OF hs]
  have sh: "length [''A''] = length [[0::real]] \<and> ''A'' \<in> set [''A'']" by simp
  have ssc: "\<forall>j<length [[0::real]]. int j \<noteq> find_target_index ''A'' [''A''] \<longrightarrow>
      (\<exists>s. sum_of_squared_difference ([[0]] ! j)
             ([[0]] ! nat (find_target_index ''A'' [''A''])) = Inr s)"
    by (simp add: single_row_find)
  have shs: "length [''A''] = length [[0::real]] \<and> ''A'' \<in> set [''A'']
      \<and> (\<forall>j<length [[0::real]]. int j \<noteq> find_target_index ''A'' [''A''] \<longrightarrow>
      (\<exists>s. sum_of_squared_difference ([[0]] ! j)
             ([[0]] ! nat (find_target_index ''A'' [''A''])) = Inr s))"
    using sh ssc by (intro conjI) simp_all
  from inst[where filenames = "[''A'']" and data = "[[0::real]]",
      THEN conjunct2, rule_format, OF shs]
  have c: "find_topN_matches_ssd sum_of_squared_difference ''A'' [''A''] [[0]] 3 = Inr []"
    by auto
  note desc = result_is_first_N_of_ranking[where R = find_topN_matches_rgb_hist
      and descending = True and calculate = histogram_intersection
      and target = "''A''" and filenames = "[''A'', ''B'', ''C'']"
      and data = "[[1/2, 1/2], [2/5, 3/5], [1/10, 9/10]]" and N = 2
      and out = "[''B'', ''C'']", OF md, unfolded if_True, THEN conjunct1, rule_format,
      OF example_rgb_hist]
  show ?thesis
    by (rule conjI[OF h conjI[OF example_unordered_ssd conjI[OF first
        conjI[OF every conjI[OF c desc]]]]])
qed

section \<open>Vectors of different lengths\<close>

lemma score_loop_propagates:
  assumes "j < length data" and "j \<noteq> t"
    and "c (data ! j) tv = Inl e0"
    and "\<And>a b e. c a b = Inl e \<Longrightarrow> e = DimensionMismatch"
  shows "score_loop c data tv t 0 [] = Inl DimensionMismatch"
proof (cases "score_loop c data tv t 0 []")
  case (Inl e)
  from score_loop_Inl[OF this] obtain k where "c (data ! k) tv = Inl e" by blast
  then have "e = DimensionMismatch" by (rule assms(4))
  then show ?thesis using Inl by simp
next
  case (Inr ds)
  from score_loop_Inr[OF this]
  have m: "map snd ds = filter (\<lambda>j. j \<noteq> t) [0..<length data]"
    and v: "\<forall>m \<in> set ds. c (data ! snd m) tv = Inr (fst m)" by auto
  have "j \<in> set (map snd ds)" using m assms(1,2) by simp
  then obtain p where "p \<in> set ds" "snd p = j" by auto
  then have "c (data ! j) tv = Inr (fst p)" using v by blast
  then show ?thesis using assms(3) by simp
qed

lemma mismatch_is_fatal:
  assumes "find_target_index tgt fs = int t" and "t < length data"
    and "j < length data" and "j \<noteq> t"
    and "c (data ! j) (data ! t) = Inl e0"
    and "\<And>a b e. c a b = Inl e \<Longrightarrow> e = DimensionMismatch"
  shows "find_topN_matches_ssd c tgt fs data N = Inl DimensionMismatch"
    and "find_topN_matches_rgb_hist c tgt fs data N = Inl DimensionMismatch"
proof -
  have s: "score_loop c data (data ! t) t 0 [] = Inl DimensionMismatch"
    using score_loop_propagates[where c = c and data = data and tv = "data ! t"
        and t = t and j = j and ?e0.0 = e0, OF assms(3,4,5) assms(6)] .
  show "find_topN_matches_ssd c tgt fs data N = Inl DimensionMismatch"
    using ssd_found[OF assms(1,2), of c N] s by simp
  show "find_topN_matches_rgb_hist c tgt fs data N = Inl DimensionMismatch"
    using rgb_hist_found[OF assms(1,2), of c N] s by simp
qed

lemma spec_metrics_only_mismatch:
  "sum_of_squared_difference a b = Inl e \<Longrightarrow> e = DimensionMismatch"
  "histogram_intersection a b = Inl e \<Longrightarrow> e = DimensionMismatch"
  "multi_region_histogram composite a b = Inl e \<Longrightarrow> e = DimensionMismatch"
  "texture_and_color_combined composite a b = Inl e \<Longrightarrow> e = DimensionMismatch"
  by (simp_all add: sum_of_squared_difference_def histogram_intersection_def
      multi_region_histogram_def texture_and_color_combined_def split: if_splits)

lemma spec_metrics_validate:
  assumes "length a \<noteq> length b"
  shows "sum_of_squared_difference a b = Inl DimensionMismatch"
    and "histogram_intersection a b = Inl DimensionMismatch"
    and "multi_region_histogram composite a b = Inl DimensionMismatch"
    and "texture_and_color_combined composite a b = Inl DimensionMismatch"
  using assms
  by (simp_all add: sum_of_squared_difference_def histogram_intersection_def
      multi_region_histogram_def texture_and_color_combined_def)

text \<open>
  C3. Each metric of the specification fails with \<open>DimensionMismatch\<close> on two vectors
  of different lengths. When the dataset has a row whose length differs from that of
  the query's row, each matching routine, run with its metric, ends with that failure:
  the failure of the distance function passes through the routine, which returns
  neither a result without the row nor any other failure.
\<close>

theorem dimension_mismatch_is_fatal:
  "(length a \<noteq> length b \<longrightarrow>
      sum_of_squared_difference a b = Inl DimensionMismatch
      \<and> histogram_intersection a b = Inl DimensionMismatch
      \<and> multi_region_histogram composite a b = Inl DimensionMismatch
      \<and> texture_and_color_combined composite a b = Inl DimensionMismatch)
   \<and> (find_target_index target filenames = int t \<and> t < length data \<and> j < length data
        \<and> length (data ! j) \<noteq> length (data ! t) \<longrightarrow>
      find_topN_matches_ssd sum_of_squared_difference target filenames data N
        = Inl DimensionMismatch
      \<and> find_topN_matches_rgb_hist histogram_intersection target filenames data N
        = Inl DimensionMismatch
      \<and> find_topN_matches_multiHist (multi_region_histogram composite)
          target filenames data N = Inl DimensionMismatch
      \<and> find_topN_matches_textureColor (texture_and_color_combined composite)
          target filenames data N = Inl DimensionMismatch)"
proof (intro conjI impI)
  assume "length a \<noteq> length b"
  note v = spec_metrics_validate[OF this]
  show "sum_of_squared_difference a b = Inl DimensionMismatch" by (rule v(1))
  show "histogram_intersection a b = Inl DimensionMismatch" by (rule v(2))
  show "multi_region_histogram composite a b = Inl DimensionMismatch" by (rule v(3))
  show "texture_and_color_combined composite a b = Inl DimensionMismatch" by (rule v(4))
next
  assume h: "find_target_index target filenames = int t \<and> t < length data
      \<and> j < length data \<and> length (data ! j) \<noteq> length (data ! t)"
  then have f: "find_target_index target filenames = int t" and td: "t < length data"
    and jd: "j < length data" and ne: "length (data ! j) \<noteq> length (data ! t)"
    by simp_all
  have jt: "j \<noteq> t" using ne by auto
  note v = spec_metrics_validate[OF ne]
  show "find_topN_matches_ssd sum_of_squared_difference target filenames data N
        = Inl DimensionMismatch"
    by (rule mismatch_is_fatal(1)[where c = sum_of_squared_difference,
        OF f td jd jt v(1) spec_metrics_only_mismatch(1)])
  show "find_topN_matches_rgb_hist histogram_intersection target filenames data N
        = Inl DimensionMismatch"
    by (rule mismatch_is_fatal(2)[where c = histogram_intersection,
        OF f td jd jt v(2) spec_metrics_only_mismatch(2)])
  show "find_topN_matches_multiHist (multi_region_histogram composite)
          target filenames data N = Inl DimensionMismatch"
    unfolding multiHist_is_ssd
    by (rule mismatch_is_fatal(1)[where c = "multi_region_histogram composite",
        OF f td jd jt v(3) spec_metrics_only_mismatch(3)])
  show "find_topN_matches_textureColor (texture_and_color_combined composite)
          target filenames data N = Inl DimensionMismatch"
    unfolding textureColor_is_ssd
    by (rule mismatch_is_fatal(1)[where c = "texture_and_color_combined composite",
        OF f td jd jt v(4) spec_metrics_only_mismatch(4)])
qed

theorem dimension_mismatch_is_fatal_witness:
  "length [0::real] \<noteq> length [0, 1::real]
   \<and> sum_of_squared_difference [0] [0, 1] = Inl DimensionMismatch
   \<and> histogram_intersection [0] [0, 1] = Inl DimensionMismatch
   \<and> (find_target_index ''A'' [''A'', ''B'', ''C''] = int 0
       \<and> 0 < length [[0, 0], [1], [5, 5::real]] \<and> 1 < length [[0, 0], [1], [5, 5::real]]
       \<and> length ([[0, 0], [1], [5, 5::real]] ! 1) \<noteq> length ([[0, 0], [1], [5, 5::real]] ! 0))
   \<and> find_topN_matches_ssd sum_of_squared_difference ''A'' [''A'', ''B'', ''C'']
        [[0, 0], [1], [5, 5]] 2 = Inl DimensionMismatch
   \<and> find_topN_matches_rgb_hist histogram_intersection ''A'' [''A'', ''B'', ''C'']
        [[0, 0], [1], [5, 5]] 2 = Inl DimensionMismatch"
proof -
  have l: "length [0::real] \<noteq> length [0, 1::real]" by simp
  have h: "find_target_index ''A'' [''A'', ''B'', ''C''] = int 0
       \<and> 0 < length [[0, 0], [1], [5, 5::real]] \<and> 1 < length [[0, 0], [1], [5, 5::real]]
       \<and> length ([[0, 0], [1], [5, 5::real]] ! 1) \<noteq> length ([[0, 0], [1], [5, 5::real]] ! 0)"
    using three_rows_find by simp
  note d = dimension_mismatch_is_fatal[where a = "[0]" and b = "[0, 1]"
      and composite = "\<lambda>a b. 0" and target = "''A''" and filenames = "[''A'', ''B'', ''C'']"
      and t = 0 and j = 1 and data = "[[0, 0], [1], [5, 5]]" and N = 2]
  note m = d[THEN conjunct1, rule_format, OF l]
  note r = d[THEN conjunct2, rule_format, OF h]
  show ?thesis
    by (rule conjI[OF l conjI[OF m[THEN conjunct1]
        conjI[OF m[THEN conjunct2, THEN conjunct1]
        conjI[OF h conjI[OF r[THEN conjunct1] r[THEN conjunct2, THEN conjunct1]]]]]])
qed

end
